theory Spec2Isabelle
  imports
    Complex_Main
    "HOL-Library.Multiset"
    "HOL-Library.Product_Lexorder"
    "HOL-Library.Sublist"
    "HOL-Library.Char_ord"
    "HOL-Library.List_Lexorder"
begin

section \<open>Conventions of the embedding\<close>

text \<open>
  The theory embeds \<^verbatim>\<open>src/stella/neural_network.py\<close> (class \<^verbatim>\<open>ConvNN\<close>).

  \<^item> A Python exception is a value of the type \<open>error\<close>; a function that may raise
    returns \<open>error + 'a\<close> with \<open>Inl\<close> the exception.
  \<^item> A finite \<^verbatim>\<open>float64\<close> is idealised as a \<open>real\<close> (exact arithmetic, no rounding
    error, no infinities). Where the source distinguishes \<^verbatim>\<open>NaN\<close> (the prediction
    tables of \<^verbatim>\<open>create_df\<close>) the type \<open>float64\<close> adds it as a separate value.
  \<^item> The windowing functions are polymorphic in the sample type: they only move
    samples and pad with zero.
  \<^item> Calls into numpy, scipy, sklearn, keras and astropy are written out where the source
    depends on what they compute (slicing, \<^verbatim>\<open>np.insert\<close>, \<^verbatim>\<open>np.arange\<close>, row
    assignment, \<^verbatim>\<open>np.nanmean\<close>, \<^verbatim>\<open>Table.add_column\<close>), and are parameters where
    only their success or failure matters (the sklearn metrics, the trained network, the
    random generator, \<^verbatim>\<open>os.path.isdir\<close> and \<^verbatim>\<open>os.mkdir\<close>). The directory that
    \<^verbatim>\<open>train_models\<close> writes and \<^verbatim>\<open>create_df\<close> reads is an association list from
    file names to contents.
\<close>

datatype error =
    ValueError string
  | NameError string
  | UnboundLocalError string
  | AttributeError string
  | KeyError string
  | IndexError string
  | ZeroDivisionError string
  | OSError string
  | LibraryError string

section \<open>The windowing loop of \<^verbatim>\<open>predict\<close>\<close>

subsection \<open>numpy primitives\<close>

text \<open>Python's slice bounds: a negative bound counts from the end, and both bounds are
  clamped to the sequence.\<close>

definition clamp_index :: "nat \<Rightarrow> int \<Rightarrow> nat" where
  "clamp_index n k = (if k < 0 then nat (max 0 (int n + k)) else min n (nat k))"

definition py_slice :: "int \<Rightarrow> int \<Rightarrow> 'a list \<Rightarrow> 'a list" where
  "py_slice a b xs =
     (let n = length xs; lo = clamp_index n a; hi = clamp_index n b
      in take (hi - lo) (drop lo xs))"

text \<open>\<^verbatim>\<open>int(x)\<close> on a float truncates towards zero.\<close>

definition py_int :: "real \<Rightarrow> int" where
  "py_int x = (if 0 \<le> x then \<lfloor>x\<rfloor> else \<lceil>x\<rceil>)"

text \<open>\<^verbatim>\<open>np.zeros((n,))\<close> raises on a negative dimension.\<close>

definition np_zeros :: "int \<Rightarrow> error + ('a::zero) list" where
  "np_zeros n =
     (if n < 0 then Inl (ValueError ''negative dimensions are not allowed'')
      else Inr (replicate (nat n) 0))"

text \<open>\<^verbatim>\<open>reshaped_data[i] = f\<close>: the row has \<open>cadences\<close> entries; numpy accepts a
  value of the same length, broadcasts a value of length one, and raises otherwise.\<close>

definition assign_row :: "int \<Rightarrow> 'a list \<Rightarrow> error + 'a list" where
  "assign_row cadences f =
     (if int (length f) = cadences then Inr f
      else if length f = 1 then Inr (replicate (nat cadences) (hd f))
      else Inl (ValueError ''could not broadcast input array''))"

subsection \<open>One window\<close>

text \<open>
  The body of \<^verbatim>\<open>for i in range(len(lc))\<close>, lines 596 to 620, as far as \<^verbatim>\<open>f\<close> is
  concerned. The time axis \<^verbatim>\<open>t\<close> that each branch also builds is never read again
  (and \<^verbatim>\<open>tstep_padding\<close>, which the last branch reads, is bound by the iteration
  \<open>i = 0\<close>, which always takes the first branch), so it is left out.
\<close>

definition cadence_pad :: "int \<Rightarrow> int" where
  "cadence_pad cadences = py_int (real_of_int cadences / 2)"

definition left_branch :: "int \<Rightarrow> nat \<Rightarrow> bool" where
  "left_branch cadences i \<longleftrightarrow> real i \<le> real_of_int cadences / 2"

definition right_branch :: "int \<Rightarrow> nat \<Rightarrow> nat \<Rightarrow> bool" where
  "right_branch cadences n i \<longleftrightarrow> int i \<ge> int n - cadence_pad cadences"

definition window :: "int \<Rightarrow> ('a::zero) list \<Rightarrow> nat \<Rightarrow> error + 'a list" where
  "window cadences lc i =
     (if left_branch cadences i then
        (let fill_length = cadence_pad cadences - int i
         in case np_zeros fill_length of
              Inl e \<Rightarrow> Inl e
            | Inr padding_array \<Rightarrow>
                Inr (padding_array @ py_slice 0 (int i + cadence_pad cadences) lc))
      else if right_branch cadences (length lc) i then
        (let loc0 = int i - cadence_pad cadences;
             loc1 = int (length lc);
             fill_length = \<bar>cadences - int (length (py_slice loc0 loc1 lc))\<bar>
         in case np_zeros fill_length of
              Inl e \<Rightarrow> Inl e
            | Inr padding_array \<Rightarrow> Inr (py_slice loc0 loc1 lc @ padding_array))
      else
        (let loc0 = int i - cadence_pad cadences;
             loc1 = int i + cadence_pad cadences
         in Inr (py_slice loc0 loc1 lc)))"

subsection \<open>The loop\<close>

text \<open>\<^verbatim>\<open>reshaped_data\<close> starts as \<^verbatim>\<open>np.zeros((len(lc), cadences))\<close>; each iteration
  overwrites row \<open>i\<close>. An exception leaves the loop and \<^verbatim>\<open>predict\<close>.\<close>

fun set_rows ::
  "int \<Rightarrow> ('a::zero) list \<Rightarrow> nat list \<Rightarrow> 'a list list \<Rightarrow> error + 'a list list" where
  "set_rows cadences lc [] reshaped_data = Inr reshaped_data"
| "set_rows cadences lc (i # is) reshaped_data =
     (case window cadences lc i of
        Inl e \<Rightarrow> Inl e
      | Inr f \<Rightarrow>
          (case assign_row cadences f of
             Inl e \<Rightarrow> Inl e
           | Inr row \<Rightarrow> set_rows cadences lc is (reshaped_data[i := row])))"

definition build_windows :: "int \<Rightarrow> ('a::zero) list \<Rightarrow> error + 'a list list" where
  "build_windows cadences lc =
     (if cadences < 0 then Inl (ValueError ''negative dimensions are not allowed'')
      else set_rows cadences lc [0..<length lc]
             (replicate (length lc) (replicate (nat cadences) 0)))"

text \<open>\<^verbatim>\<open>lc = lc/np.nanmedian(lc)\<close>, line 585, on samples without \<^verbatim>\<open>NaN\<close>. On the
  empty list numpy gives \<^verbatim>\<open>NaN\<close>; no sample is divided by it then.\<close>

definition nanmedian :: "real list \<Rightarrow> real" where
  "nanmedian xs =
     (let s = sort xs; n = length xs
      in if n = 0 then 0
         else if odd n then s ! (n div 2)
         else (s ! (n div 2 - 1) + s ! (n div 2)) / 2)"



section \<open>\<^verbatim>\<open>fill_in_sample\<close>\<close>

subsection \<open>numpy and scipy primitives\<close>

text \<open>\<^verbatim>\<open>np.diff\<close>, and \<^verbatim>\<open>np.nanstd\<close> on samples without \<^verbatim>\<open>NaN\<close> (the population
  standard deviation). On the empty list numpy gives \<^verbatim>\<open>NaN\<close> for both statistics; the
  list of differences is then empty too, so the threshold is compared with nothing.\<close>

definition np_diff :: "real list \<Rightarrow> real list" where
  "np_diff t = map (\<lambda>i. t ! Suc i - t ! i) [0..<length t - 1]"

definition mean :: "real list \<Rightarrow> real" where
  "mean xs = sum_list xs / real (length xs)"

definition nanstd :: "real list \<Rightarrow> real" where
  "nanstd xs = sqrt (mean (map (\<lambda>x. (x - mean xs)\<^sup>2) xs))"

text \<open>\<^verbatim>\<open>np.arange(start, stop, step)\<close> has \<open>\<lceil>(stop - start) / step\<rceil>\<close> entries
  \<open>start + k * step\<close>, none when that number is not positive, and raises on a zero
  step.\<close>

definition np_arange :: "real \<Rightarrow> real \<Rightarrow> real \<Rightarrow> error + real list" where
  "np_arange start stop step =
     (if step = 0 then Inl (ZeroDivisionError ''arange: zero step'')
      else Inr (map (\<lambda>k. start + real k * step) [0..<nat \<lceil>(stop - start) / step\<rceil>]))"

text \<open>\<^verbatim>\<open>np.insert(arr, i, values)\<close> puts the values before index \<open>i\<close>.\<close>

definition np_insert :: "'a list \<Rightarrow> nat \<Rightarrow> 'a list \<Rightarrow> error + 'a list" where
  "np_insert arr i vals =
     (if length arr < i then Inl (IndexError ''index out of bounds'')
      else Inr (take i arr @ vals @ drop i arr))"

text \<open>
  \<^verbatim>\<open>interp1d(x, y)\<close> on two knots (the source passes \<^verbatim>\<open>t[start:stop]\<close> with
  \<^verbatim>\<open>stop = start + 2\<close>): the constructor refuses \<open>x\<close> and \<open>y\<close> of different length and
  sorts the knots by \<open>x\<close>; the interpolant is linear and refuses an argument outside the
  knots (\<^verbatim>\<open>bounds_error\<close>). Where the two knots coincide no argument is passed (see
  \<open>np_arange\<close>).
\<close>

definition interp1d :: "real list \<Rightarrow> real list \<Rightarrow> error + ((real \<times> real) \<times> (real \<times> real))" where
  "interp1d x y =
     (case (x, y) of
        ([x0, x1], [y0, y1]) \<Rightarrow>
          Inr (if x0 \<le> x1 then ((x0, y0), (x1, y1)) else ((x1, y1), (x0, y0)))
      | _ \<Rightarrow> Inl (ValueError ''x and y arrays must be equal in length along interpolation axis''))"

definition interp_eval :: "(real \<times> real) \<times> (real \<times> real) \<Rightarrow> real list \<Rightarrow> error + real list" where
  "interp_eval func x_new =
     (case func of ((lo, y_lo), (hi, y_hi)) \<Rightarrow>
        if list_ex (\<lambda>x. x < lo) x_new
          then Inl (ValueError ''A value in x_new is below the interpolation range'')
        else if list_ex (\<lambda>x. hi < x) x_new
          then Inl (ValueError ''A value in x_new is above the interpolation range'')
        else Inr (map (\<lambda>x. (y_hi - y_lo) / (hi - lo) * (x - lo) + y_lo) x_new))"

text \<open>\<^verbatim>\<open>np.random.normal(0, scale, n)\<close>: the generator is the sequence \<open>rng\<close> of standard
  normal variates it will produce and the number \<open>k\<close> of those already drawn; a negative
  scale is refused.\<close>

definition random_normal ::
  "(nat \<Rightarrow> real) \<Rightarrow> nat \<Rightarrow> real \<Rightarrow> nat \<Rightarrow> error + (real list \<times> nat)" where
  "random_normal rng k scale n =
     (if scale < 0 then Inl (ValueError ''scale < 0'')
      else Inr (map (\<lambda>j. 0 + scale * rng (k + j)) [0..<n], k + n))"

subsection \<open>The function\<close>

text \<open>\<^verbatim>\<open>np.where(diff >= (np.nanmedian(diff) + sigma*np.nanstd(diff)))[0]\<close>.\<close>

definition gap_indices :: "real \<Rightarrow> real list \<Rightarrow> nat list" where
  "gap_indices sigma diff =
     filter (\<lambda>i. diff ! i \<ge> nanmedian diff + sigma * nanstd diff) [0..<length diff]"

text \<open>The body of \<^verbatim>\<open>for i in diff_ind\<close>, lines 553 to 564. \<open>median_diff\<close> is
  \<^verbatim>\<open>np.nanmedian(diff)\<close> of the differences of the input times; the arrays are the ones
  the earlier iterations left. Once \<^verbatim>\<open>interp1d\<close> has accepted the two knots,
  \<^verbatim>\<open>t[start]\<close> and \<^verbatim>\<open>t[start+1]\<close> are in range.\<close>

definition fill_gap ::
  "(nat \<Rightarrow> real) \<Rightarrow> real \<Rightarrow> real \<Rightarrow> nat
   \<Rightarrow> real list \<times> real list \<times> real list \<times> nat
   \<Rightarrow> error + (real list \<times> real list \<times> real list \<times> nat)" where
  "fill_gap rng median_diff avg_noise i state =
     (case state of (t, f, e, k) \<Rightarrow>
       (let start = i; stop = i + 2
        in case interp1d (py_slice (int start) (int stop) t) (py_slice (int start) (int stop) f) of
             Inl err \<Rightarrow> Inl err
           | Inr func \<Rightarrow>
        (case np_arange (t ! start) (t ! (start + 1)) median_diff of
             Inl err \<Rightarrow> Inl err
           | Inr new_time \<Rightarrow>
        (case interp_eval func new_time of
             Inl err \<Rightarrow> Inl err
           | Inr vals \<Rightarrow>
        (case random_normal rng k avg_noise (length new_time) of
             Inl err \<Rightarrow> Inl err
           | Inr (noise, k') \<Rightarrow>
        (let new_flux = map2 (+) vals noise
         in case np_insert t i new_time of
              Inl err \<Rightarrow> Inl err
            | Inr t' \<Rightarrow>
         (case np_insert f i new_flux of
              Inl err \<Rightarrow> Inl err
            | Inr f' \<Rightarrow>
         (case np_insert e i (replicate (length new_time) avg_noise) of
              Inl err \<Rightarrow> Inl err
            | Inr e' \<Rightarrow> Inr (t', f', e', k')))))))))"

fun fill_gaps ::
  "(nat \<Rightarrow> real) \<Rightarrow> real \<Rightarrow> real \<Rightarrow> nat list
   \<Rightarrow> real list \<times> real list \<times> real list \<times> nat
   \<Rightarrow> error + (real list \<times> real list \<times> real list \<times> nat)" where
  "fill_gaps rng median_diff avg_noise [] state = Inr state"
| "fill_gaps rng median_diff avg_noise (i # is) state =
     (case fill_gap rng median_diff avg_noise i state of
        Inl err \<Rightarrow> Inl err
      | Inr state' \<Rightarrow> fill_gaps rng median_diff avg_noise is state')"

text \<open>\<^verbatim>\<open>t, f = zip(*sorted(zip(t, f)))\<close>: the pairs are sorted in the order of tuples
  (by time, then by flux), and unpacking the empty result raises. The first three
  components of the result are what the source returns; the fourth is the state of the
  generator.\<close>

definition fill_in_sample ::
  "(nat \<Rightarrow> real) \<Rightarrow> nat \<Rightarrow> real \<Rightarrow> real list \<Rightarrow> real list \<Rightarrow> real list
   \<Rightarrow> error + (real list \<times> real list \<times> real list \<times> nat)" where
  "fill_in_sample rng k sigma t f e =
     (let diff = np_diff t;
          diff_ind = gap_indices sigma diff;
          avg_noise = nanstd f / 2
      in case fill_gaps rng (nanmedian diff) avg_noise diff_ind (t, f, e, k) of
           Inl err \<Rightarrow> Inl err
         | Inr (t, f, e, k) \<Rightarrow>
             (case sort (zip t f) of
                [] \<Rightarrow> Inl (ValueError ''not enough values to unpack (expected 2, got 0)'')
              | p # ps \<Rightarrow> Inr (map fst (p # ps), map snd (p # ps), e, k)))"

section \<open>Values and tables\<close>

text \<open>A table entry is a \<^verbatim>\<open>float64\<close> that may be \<^verbatim>\<open>NaN\<close>; comparisons with
  \<^verbatim>\<open>NaN\<close> are false.\<close>

datatype float64 = NaN | Num real

fun fge :: "float64 \<Rightarrow> float64 \<Rightarrow> bool" where
  "fge (Num a) (Num b) \<longleftrightarrow> a \<ge> b"
| "fge _ _ \<longleftrightarrow> False"

fun flt :: "float64 \<Rightarrow> float64 \<Rightarrow> bool" where
  "flt (Num a) (Num b) \<longleftrightarrow> a < b"
| "flt _ _ \<longleftrightarrow> False"

fun feq :: "float64 \<Rightarrow> float64 \<Rightarrow> bool" where
  "feq (Num a) (Num b) \<longleftrightarrow> a = b"
| "feq _ _ \<longleftrightarrow> False"

text \<open>\<^verbatim>\<open>np.round(x, d)\<close> is \<^verbatim>\<open>rint(x * 10**d) / 10**d\<close>, and \<^verbatim>\<open>rint\<close> rounds a tie
  to the even neighbour.\<close>

definition rint :: "real \<Rightarrow> int" where
  "rint x =
     (let f = \<lfloor>x\<rfloor>; d = x - of_int f
      in if d < 1 / 2 then f else if 1 / 2 < d then f + 1 else if even f then f else f + 1)"

fun np_round :: "nat \<Rightarrow> float64 \<Rightarrow> float64" where
  "np_round d NaN = NaN"
| "np_round d (Num x) = Num (of_int (rint (x * 10 ^ d)) / 10 ^ d)"

text \<open>An astropy \<^verbatim>\<open>Table\<close>: named columns in order. \<^verbatim>\<open>df[name]\<close> raises
  \<^verbatim>\<open>KeyError\<close> on a missing name; \<^verbatim>\<open>add_column\<close> refuses a name already there and
  a column whose length differs from the table's; \<^verbatim>\<open>index=0\<close> puts the column in
  front. (Later astropy releases stretch a column of length one to the table's length
  instead of refusing it; that case is modelled as the refusal.)\<close>

type_synonym column = "float64 list"
type_synonym table = "(string \<times> column) list"

definition getcol :: "table \<Rightarrow> string \<Rightarrow> error + column" where
  "getcol df name = (case map_of df name of None \<Rightarrow> Inl (KeyError name) | Some c \<Rightarrow> Inr c)"

definition colnames :: "table \<Rightarrow> string list" where
  "colnames df = map fst df"

definition table_len :: "table \<Rightarrow> nat" where
  "table_len df = (case df of [] \<Rightarrow> 0 | (_, c) # _ \<Rightarrow> length c)"

definition add_column :: "table \<Rightarrow> string \<Rightarrow> column \<Rightarrow> bool \<Rightarrow> error + table" where
  "add_column df name col at_front =
     (if name \<in> set (colnames df) then Inl (ValueError ''Duplicate column names'')
      else if df \<noteq> [] \<and> length col \<noteq> table_len df
        then Inl (ValueError ''Inconsistent data column lengths'')
      else if at_front then Inr ((name, col) # df)
      else Inr (df @ [(name, col)]))"

section \<open>The module namespace and the object\<close>

text \<open>
  The names the module binds at top level (its imports, \<^verbatim>\<open>__all__\<close> and the class).
  A name that a function reads without assigning it is looked up here and then among the
  builtins; neither holds \<^verbatim>\<open>threshold\<close> or \<^verbatim>\<open>warnings\<close>, so the read raises
  \<^verbatim>\<open>NameError\<close>.
\<close>

datatype pyval = Module | Class | Function | StrList | Float float64

definition module_globals :: "(string \<times> pyval) list" where
  "module_globals =
     [(''os'', Module), (''glob'', Module), (''np'', Module), (''tqdm'', Function),
      (''tf'', Module), (''keras'', Module), (''interp1d'', Class), (''Table'', Class),
      (''Column'', Class), (''__all__'', StrList), (''ConvNN'', Class)]"

definition load_global :: "string \<Rightarrow> error + pyval" where
  "load_global name =
     (case map_of module_globals name of
        None \<Rightarrow> Inl (NameError name)
      | Some v \<Rightarrow> Inr v)"

text \<open>The attributes of a \<^verbatim>\<open>ConvNN\<close> object that the modelled methods read or assign.
  \<open>None\<close> stands for an attribute that holds no value (never assigned, or assigned
  \<^verbatim>\<open>None\<close> by \<^verbatim>\<open>__init__\<close>).\<close>

record conv_nn =
  output_dir :: "string option"
  epochs :: "int option"
  frac_balance :: string
  average_precision :: "float64 option"
  accuracy :: "float64 option"
  recall_score :: "float64 option"
  precision_score :: "float64 option"
  prec_recall_curve :: "(column \<times> column) option"
  history_table :: "table option"
  val_pred_table :: "table option"
  test_pred_table :: "table option"

section \<open>\<^verbatim>\<open>fetch_dir\<close>\<close>

text \<open>The operating system is a parameter: \<open>home\<close> is \<^verbatim>\<open>os.path.expanduser('~')\<close>,
  \<open>isdir\<close> is \<^verbatim>\<open>os.path.isdir\<close>, and \<open>mkdir p\<close> is false when \<^verbatim>\<open>os.mkdir(p)\<close> raises
  \<^verbatim>\<open>OSError\<close>. A method returns the object as the call leaves it and the exception,
  if one was raised.\<close>

definition path_join :: "string \<Rightarrow> string \<Rightarrow> string" where
  "path_join a b = (if a = [] then b else if last a = CHR ''/'' then a @ b else a @ ''/'' @ b)"

definition fetch_dir ::
  "string \<Rightarrow> (string \<Rightarrow> bool) \<Rightarrow> (string \<Rightarrow> bool) \<Rightarrow> conv_nn \<Rightarrow> conv_nn \<times> error option" where
  "fetch_dir home isdir mkdir self =
     (let download_dir = path_join home ''.stella''
      in if isdir download_dir then (self\<lparr>output_dir := Some download_dir\<rparr>, None)
         else if mkdir download_dir then (self\<lparr>output_dir := Some download_dir\<rparr>, None)
         else
           (let download_dir = ''.''
            in case load_global ''warnings'' of
                 Inl e \<Rightarrow> (self, Some e)
               | Inr warnings \<Rightarrow> (self\<lparr>output_dir := Some download_dir\<rparr>, None)))"

text \<open>The end of \<^verbatim>\<open>__init__\<close>, lines 84 to 87.\<close>

definition init_output_dir ::
  "string \<Rightarrow> (string \<Rightarrow> bool) \<Rightarrow> (string \<Rightarrow> bool) \<Rightarrow> string option \<Rightarrow> conv_nn
   \<Rightarrow> conv_nn \<times> error option" where
  "init_output_dir home isdir mkdir output_dir_arg self =
     (case output_dir_arg of
        None \<Rightarrow> fetch_dir home isdir mkdir self
      | Some d \<Rightarrow> (self\<lparr>output_dir := Some d\<rparr>, None))"

section \<open>\<^verbatim>\<open>ensemble_metrics\<close>\<close>

text \<open>The four sklearn functions are parameters; each may raise.\<close>

record sklearn =
  average_precision_score :: "column \<Rightarrow> column \<Rightarrow> error + float64"
  sk_recall_score :: "column \<Rightarrow> column \<Rightarrow> error + float64"
  sk_precision_score :: "column \<Rightarrow> column \<Rightarrow> error + float64"
  precision_recall_curve :: "column \<Rightarrow> column \<Rightarrow> error + (column \<times> column)"

text \<open>\<^verbatim>\<open>arr[arr >= threshold] = 1.0; arr[arr < threshold] = 0.0\<close>: two assignments, the
  second on the result of the first.\<close>

definition threshold_in_place :: "float64 \<Rightarrow> column \<Rightarrow> column" where
  "threshold_in_place t arr =
     (let arr = map (\<lambda>x. if fge x t then Num 1 else x) arr
      in map (\<lambda>x. if flt x t then Num 0 else x) arr)"

text \<open>\<^verbatim>\<open>np.sum(arr == gt) / len(df)\<close>; numpy's division by zero gives \<^verbatim>\<open>NaN\<close>
  (or an infinity, which cannot arise here) with a warning.\<close>

definition fraction_equal :: "column \<Rightarrow> column \<Rightarrow> nat \<Rightarrow> float64" where
  "fraction_equal arr gt n =
     (if n = 0 then NaN
      else Num (real (length (filter (\<lambda>(a, g). feq a g) (zip arr gt))) / real n))"

text \<open>The body of the loop over \<^verbatim>\<open>df.columns[4:]\<close>, lines 364 to 375.\<close>

definition metrics_step ::
  "sklearn \<Rightarrow> table \<Rightarrow> string \<Rightarrow> column \<times> column \<Rightarrow> error + (column \<times> column)" where
  "metrics_step sk df val acc =
     (case getcol df ''gt'' of
        Inl e \<Rightarrow> Inl e
      | Inr gt \<Rightarrow>
     (case getcol df val of
        Inl e \<Rightarrow> Inl e
      | Inr data \<Rightarrow>
     (case average_precision_score sk gt data of
        Inl e \<Rightarrow> Inl e
      | Inr a \<Rightarrow>
     (case load_global ''threshold'' of
        Inl e \<Rightarrow> Inl e
      | Inr (Float threshold) \<Rightarrow>
          Inr (fst acc @ [np_round 4 a],
               snd acc @ [np_round 4
                            (fraction_equal (threshold_in_place threshold data) gt
                               (table_len df))])
      | Inr _ \<Rightarrow> Inl (ValueError ''threshold is not a number'')))))"

fun metrics_loop ::
  "sklearn \<Rightarrow> table \<Rightarrow> string list \<Rightarrow> column \<times> column \<Rightarrow> error + (column \<times> column)" where
  "metrics_loop sk df [] acc = Inr acc"
| "metrics_loop sk df (val # vals) acc =
     (case metrics_step sk df val acc of
        Inl e \<Rightarrow> Inl e
      | Inr acc' \<Rightarrow> metrics_loop sk df vals acc')"

text \<open>\<^verbatim>\<open>xs[-1]\<close>.\<close>

definition last_item :: "'a list \<Rightarrow> error + 'a" where
  "last_item xs = (if xs = [] then Inl (IndexError ''list index out of range'') else Inr (last xs))"

definition ensemble_metrics :: "sklearn \<Rightarrow> conv_nn \<Rightarrow> table \<Rightarrow> conv_nn \<times> error option" where
  "ensemble_metrics sk self df =
     (case metrics_loop sk df (drop 4 (colnames df)) ([], []) of
        Inl e \<Rightarrow> (self, Some e)
      | Inr (ap, ac) \<Rightarrow>
     (case getcol df ''gt'' of
        Inl e \<Rightarrow> (self, Some e)
      | Inr gt \<Rightarrow>
     (case getcol df ''pred_round'' of
        Inl e \<Rightarrow> (self, Some e)
      | Inr pred_round \<Rightarrow>
     (case sk_recall_score sk gt pred_round of
        Inl e \<Rightarrow> (self, Some e)
      | Inr rs \<Rightarrow>
     (case sk_precision_score sk gt pred_round of
        Inl e \<Rightarrow> (self, Some e)
      | Inr ps \<Rightarrow>
     (case getcol df ''pred'' of
        Inl e \<Rightarrow> (self, Some e)
      | Inr pred \<Rightarrow>
     (case precision_recall_curve sk gt pred of
        Inl e \<Rightarrow> (self, Some e)
      | Inr (prec_curve, rec_curve) \<Rightarrow>
     (case last_item ap of
        Inl e \<Rightarrow> (self, Some e)
      | Inr ap_last \<Rightarrow>
     (let self = self\<lparr>average_precision := Some ap_last\<rparr>
      in case last_item ac of
           Inl e \<Rightarrow> (self, Some e)
         | Inr ac_last \<Rightarrow>
             (self\<lparr>accuracy := Some ac_last,
                    recall_score := Some (np_round 4 rs),
                    precision_score := Some (np_round 4 ps),
                    prec_recall_curve := Some (rec_curve, prec_curve)\<rparr>, None))))))))))"

section \<open>Strings and file names\<close>

text \<open>\<^verbatim>\<open>str.lower\<close> on ASCII; no other character lowers to a letter of
  \<^verbatim>\<open>'validation'\<close> or \<^verbatim>\<open>'test'\<close>.\<close>

definition lower_char :: "char \<Rightarrow> char" where
  "lower_char c =
     (case map_of (zip ''ABCDEFGHIJKLMNOPQRSTUVWXYZ'' ''abcdefghijklmnopqrstuvwxyz'') c of
        Some d \<Rightarrow> d
      | None \<Rightarrow> c)"

definition lower :: "string \<Rightarrow> string" where
  "lower s = map lower_char s"

text \<open>\<^verbatim>\<open>'{0:04d}'.format(n)\<close>: the decimal digits, padded with zeros to four
  characters, the sign first.\<close>

fun dec :: "nat \<Rightarrow> string" where
  "dec n = (if n < 10 then [''0123456789'' ! n]
            else dec (n div 10) @ [''0123456789'' ! (n mod 10)])"

declare dec.simps [simp del]

definition zfill :: "nat \<Rightarrow> string \<Rightarrow> string" where
  "zfill w s = replicate (w - length s) CHR ''0'' @ s"

definition fmt04d :: "int \<Rightarrow> string" where
  "fmt04d n = (if n < 0 then CHR ''-'' # zfill 3 (dec (nat (- n))) else zfill 4 (dec (nat n)))"

text \<open>\<^verbatim>\<open>str.split(sep)\<close> for a non-empty separator: the pieces between the occurrences
  of \<open>sep\<close>, found from the left without overlap.\<close>

fun py_split_aux :: "string \<Rightarrow> nat \<Rightarrow> string \<Rightarrow> string \<Rightarrow> string list" where
  "py_split_aux sep skip acc [] = [rev acc]"
| "py_split_aux sep skip acc (c # cs) =
     (if 0 < skip then py_split_aux sep (skip - 1) acc cs
      else if prefix sep (c # cs) then rev acc # py_split_aux sep (length sep - 1) [] cs
      else py_split_aux sep 0 (c # acc) cs)"

definition py_split :: "string \<Rightarrow> string \<Rightarrow> string list" where
  "py_split sep s = py_split_aux sep 0 [] s"

text \<open>The column name \<^verbatim>\<open>'s'+(val.split('_s')[-1]).split('_')[0]\<close> of line 321.\<close>

definition seed_column_name :: "string \<Rightarrow> string" where
  "seed_column_name val = ''s'' @ hd (py_split ''_'' (last (py_split ''_s'' val)))"

text \<open>\<^verbatim>\<open>fnmatch\<close> with \<^verbatim>\<open>*\<close> and \<^verbatim>\<open>?\<close>. Bracket classes are not modelled: the
  patterns of this module are built from fixed text, an integer and the text of a float,
  none of which has a bracket.\<close>

fun glob_match :: "string \<Rightarrow> string \<Rightarrow> bool" where
  "glob_match [] s \<longleftrightarrow> s = []"
| "glob_match (p # ps) [] \<longleftrightarrow> p = CHR ''*'' \<and> glob_match ps []"
| "glob_match (p # ps) (c # cs) \<longleftrightarrow>
     (if p = CHR ''*'' then glob_match ps (c # cs) \<or> glob_match (p # ps) cs
      else if p = CHR ''?'' then glob_match ps cs
      else p = c \<and> glob_match ps cs)"

text \<open>
  The output directory is the list of its entries: a text table (as
  \<^verbatim>\<open>Table.read\<close> parses it) or a saved network. \<^verbatim>\<open>glob.glob(os.path.join(dir, pat))\<close>
  lists the paths of the entries whose name matches. Writing replaces an entry of the
  same name.
\<close>

datatype file_content = AsciiTable table | KerasModel

type_synonym filesystem = "(string \<times> file_content) list"

definition glob_dir :: "filesystem \<Rightarrow> string \<Rightarrow> string \<Rightarrow> string list" where
  "glob_dir fs dir pat = map (path_join dir) (filter (glob_match pat) (remdups (map fst fs)))"

definition fs_write :: "filesystem \<Rightarrow> string \<Rightarrow> file_content \<Rightarrow> filesystem" where
  "fs_write fs name content = (name, content) # filter (\<lambda>entry. fst entry \<noteq> name) fs"

definition table_read :: "filesystem \<Rightarrow> string \<Rightarrow> string \<Rightarrow> error + table" where
  "table_read fs dir path =
     (case map_of (map (\<lambda>entry. (path_join dir (fst entry), snd entry)) fs) path of
        None \<Rightarrow> Inl (OSError ''No such file or directory'')
      | Some KerasModel \<Rightarrow> Inl (LibraryError ''not a text table'')
      | Some (AsciiTable r) \<Rightarrow> Inr r)"

section \<open>\<^verbatim>\<open>train_models\<close>\<close>

text \<open>
  Training is a parameter: \<open>clf seed\<close> is what creating and fitting the network for one
  seed gives (with the \<open>epochs\<close>, \<open>batch_size\<close> and \<open>shuffle\<close> of the call): the exception
  raised, or the history (one column per metric) and what \<^verbatim>\<open>predict\<close> then gives on the
  validation set and on the test set. \<open>io_ok name\<close> tells whether the file system and
  the installed libraries let \<open>name\<close> be written in the output directory (a writer may
  refuse to replace a file). The data set gives the three identity columns of each
  table.
\<close>

record training_set =
  val_ids :: column
  val_labels :: column
  val_tpeaks :: column
  test_ids :: column
  test_labels :: column
  test_tpeaks :: column

record run =
  history :: table
  val_preds :: "error + column"
  test_preds :: "error + column"

text \<open>\<^verbatim>\<open>Table(columns, names=...)\<close> and a sequence of \<^verbatim>\<open>add_column\<close> calls.\<close>

fun add_columns :: "table \<Rightarrow> (string \<times> column) list \<Rightarrow> error + table" where
  "add_columns df [] = Inr df"
| "add_columns df ((name, col) # cols) =
     (case add_column df name col False of
        Inl e \<Rightarrow> Inl e
      | Inr df' \<Rightarrow> add_columns df' cols)"

definition seed_suffix :: "int \<Rightarrow> string" where
  "seed_suffix seed = ''_s'' @ fmt04d seed"

definition fmt_tail :: "int \<Rightarrow> int \<Rightarrow> string \<Rightarrow> string" where
  "fmt_tail seed n_epochs balance = ''_s'' @ fmt04d seed @ ''_i'' @ fmt04d n_epochs @ ''_b'' @ balance"

definition fmt_table :: "int \<Rightarrow> string \<Rightarrow> string" where
  "fmt_table n_epochs balance = ''_i'' @ fmt04d n_epochs @ ''_b'' @ balance @ ''.txt''"

text \<open>The template \<^verbatim>\<open>predval_fmt\<close> of \<^verbatim>\<open>__init__\<close>, line 81, filled in. Only
  \<^verbatim>\<open>cross_validation\<close> reads it.\<close>

definition predval_fmt :: "int \<Rightarrow> int \<Rightarrow> string \<Rightarrow> string" where
  "predval_fmt seed n_epochs balance =
     ''predval_s'' @ fmt04d seed @ ''_i'' @ fmt04d n_epochs @ ''_b'' @ balance @ ''.txt''"

text \<open>One iteration of \<^verbatim>\<open>for seed in seeds\<close>, lines 229 to 257, on the three tables and
  the output directory (which \<^verbatim>\<open>os.path.join(self.output_dir, ...)\<close> needs to be
  set).\<close>

definition train_seed ::
  "(int \<Rightarrow> error + run) \<Rightarrow> (string \<Rightarrow> bool) \<Rightarrow> conv_nn \<Rightarrow> int \<Rightarrow> bool \<Rightarrow> int
   \<Rightarrow> table \<times> table \<times> table \<times> filesystem
   \<Rightarrow> (table \<times> table \<times> table \<times> filesystem) \<times> error option" where
  "train_seed clf io_ok self n_epochs pred_test seed state =
     (case state of (tbl, val_table, test_table, fs) \<Rightarrow>
       (let model_fmt = ''model'' @ fmt_tail seed n_epochs (frac_balance self) @ ''.h5''
        in case clf seed of
             Inl e \<Rightarrow> (state, Some e)
           | Inr r \<Rightarrow>
        (case add_columns tbl (map (\<lambda>(cn, col). (cn @ seed_suffix seed, col)) (history r)) of
             Inl e \<Rightarrow> (state, Some e)
           | Inr tbl' \<Rightarrow>
        if output_dir self = None
          then ((tbl', val_table, test_table, fs), Some (AttributeError ''output_dir''))
        else if \<not> io_ok model_fmt
          then ((tbl', val_table, test_table, fs), Some (OSError model_fmt))
        else
        (let fs' = fs_write fs model_fmt KerasModel
         in case val_preds r of
              Inl e \<Rightarrow> ((tbl', val_table, test_table, fs'), Some e)
            | Inr vp \<Rightarrow>
         (case add_column val_table (''pred'' @ seed_suffix seed) vp False of
              Inl e \<Rightarrow> ((tbl', val_table, test_table, fs'), Some e)
            | Inr val_table' \<Rightarrow>
         if pred_test then
           (case test_preds r of
              Inl e \<Rightarrow> ((tbl', val_table', test_table, fs'), Some e)
            | Inr tp \<Rightarrow>
           (case add_column test_table (''test'' @ seed_suffix seed) tp False of
              Inl e \<Rightarrow> ((tbl', val_table', test_table, fs'), Some e)
            | Inr test_table' \<Rightarrow> ((tbl', val_table', test_table', fs'), None)))
         else ((tbl', val_table', test_table, fs'), None))))))"

fun train_seeds ::
  "(int \<Rightarrow> error + run) \<Rightarrow> (string \<Rightarrow> bool) \<Rightarrow> conv_nn \<Rightarrow> int \<Rightarrow> bool \<Rightarrow> int list
   \<Rightarrow> table \<times> table \<times> table \<times> filesystem
   \<Rightarrow> (table \<times> table \<times> table \<times> filesystem) \<times> error option" where
  "train_seeds clf io_ok self n_epochs pred_test [] state = (state, None)"
| "train_seeds clf io_ok self n_epochs pred_test (seed # seeds) state =
     (case train_seed clf io_ok self n_epochs pred_test seed state of
        (state', Some e) \<Rightarrow> (state', Some e)
      | (state', None) \<Rightarrow> train_seeds clf io_ok self n_epochs pred_test seeds state')"

text \<open>The writes of lines 265 to 277, in order; the first refused one raises.\<close>

fun write_all ::
  "(string \<Rightarrow> bool) \<Rightarrow> filesystem \<Rightarrow> (string \<times> table) list \<Rightarrow> filesystem \<times> error option" where
  "write_all io_ok fs [] = (fs, None)"
| "write_all io_ok fs ((name, tbl) # rest) =
     (if io_ok name then write_all io_ok (fs_write fs name (AsciiTable tbl)) rest
      else (fs, Some (OSError name)))"

definition train_models ::
  "(int \<Rightarrow> error + run) \<Rightarrow> (string \<Rightarrow> bool) \<Rightarrow> training_set \<Rightarrow> conv_nn \<Rightarrow> filesystem
   \<Rightarrow> int list \<Rightarrow> int \<Rightarrow> bool \<Rightarrow> bool \<Rightarrow> conv_nn \<times> filesystem \<times> error option" where
  "train_models clf io_ok ds self fs seeds n_epochs pred_test save =
     (let self = self\<lparr>epochs := Some n_epochs\<rparr>
      in case add_columns []
                [(''tic'', val_ids ds), (''gt'', val_labels ds), (''tpeak'', val_tpeaks ds)] of
           Inl e \<Rightarrow> (self, fs, Some e)
         | Inr val_table \<Rightarrow>
      (case add_columns []
                [(''tic'', test_ids ds), (''gt'', test_labels ds), (''tpeak'', test_tpeaks ds)] of
           Inl e \<Rightarrow> (self, fs, Some e)
         | Inr test_table \<Rightarrow>
      (case train_seeds clf io_ok self n_epochs pred_test seeds
              ([], val_table, test_table, fs) of
           ((tbl, val_table, test_table, fs), Some e) \<Rightarrow> (self, fs, Some e)
         | ((tbl, val_table, test_table, fs), None) \<Rightarrow>
      (let self = self\<lparr>history_table := Some tbl, val_pred_table := Some val_table,
                       test_pred_table := Some test_table\<rparr>
       in if save \<and> output_dir self = None then (self, fs, Some (AttributeError ''output_dir''))
          else if save then
            (let hist_fmt = ''histories'' @ fmt_table n_epochs (frac_balance self);
                 pred_fmt = ''predval'' @ fmt_table n_epochs (frac_balance self);
                 test_fmt = ''predtest'' @ fmt_table n_epochs (frac_balance self)
             in case write_all io_ok fs
                       ([(hist_fmt, tbl), (pred_fmt, val_table)]
                        @ (if 3 < length (colnames test_table) then [(test_fmt, test_table)]
                           else [])) of
                  (fs', err) \<Rightarrow> (self, fs', err))
          else (self, fs, None)))))"

section \<open>\<^verbatim>\<open>create_df\<close>\<close>

text \<open>\<^verbatim>\<open>np.nanmean(mean_arr, axis=0)\<close> on arrays of one length: entry \<open>i\<close> is the mean of
  the entries \<open>i\<close> that are not \<^verbatim>\<open>NaN\<close>, and \<^verbatim>\<open>NaN\<close> when there is none.\<close>

definition nanmean :: "float64 list \<Rightarrow> float64" where
  "nanmean vals =
     (let xs = concat (map (\<lambda>v. case v of NaN \<Rightarrow> [] | Num x \<Rightarrow> [x]) vals)
      in if xs = [] then NaN else Num (sum_list xs / real (length xs)))"

definition nanmean_axis0 :: "column list \<Rightarrow> column" where
  "nanmean_axis0 mean_arr =
     map (\<lambda>i. nanmean (map (\<lambda>c. c ! i) mean_arr)) [0..<length (hd mean_arr)]"

text \<open>Lines 331 to 333: zeros, then 1 where the mean reaches the threshold, then 0 where
  it is below.\<close>

definition pred_round_of :: "float64 \<Rightarrow> column \<Rightarrow> column" where
  "pred_round_of threshold pred =
     (let pred_round = replicate (length pred) (Num 0);
          pred_round = map2 (\<lambda>p r. if fge p threshold then Num 1 else r) pred pred_round;
          pred_round = map2 (\<lambda>p r. if flt p threshold then Num 0 else r) pred pred_round
      in pred_round)"

text \<open>The loop of lines 317 to 323: the table so far, \<^verbatim>\<open>mean_arr\<close>, and the table
  \<^verbatim>\<open>r\<close> read last.\<close>

fun read_files ::
  "filesystem \<Rightarrow> string \<Rightarrow> string list \<Rightarrow> table \<times> column list \<times> table option
   \<Rightarrow> error + (table \<times> column list \<times> table option)" where
  "read_files fs dir [] state = Inr state"
| "read_files fs dir (val # vals) state =
     (case state of (df, mean_arr, last_r) \<Rightarrow>
       (case table_read fs dir val of
          Inl e \<Rightarrow> Inl e
        | Inr r \<Rightarrow>
       (case getcol r ''pred'' of
          Inl e \<Rightarrow> Inl e
        | Inr pred \<Rightarrow>
       (case add_column df (seed_column_name val) (map (np_round 3) pred) False of
          Inl e \<Rightarrow> Inl e
        | Inr df' \<Rightarrow>
            read_files fs dir vals (df', mean_arr @ [map (np_round 3) pred], Some r)))))"

text \<open>The files of lines 301 to 308; with another \<^verbatim>\<open>data_set\<close> the name \<^verbatim>\<open>files\<close> stays
  unbound.\<close>

definition find_files :: "conv_nn \<Rightarrow> filesystem \<Rightarrow> string \<Rightarrow> error + (string \<times> string list)" where
  "find_files self fs data_set =
     (let kind = (if lower data_set = ''validation'' then Some ''predval''
                  else if lower data_set = ''test'' then Some ''predtest'' else None)
      in case kind of
           None \<Rightarrow> Inl (UnboundLocalError ''files'')
         | Some stem \<Rightarrow>
        (case output_dir self of
           None \<Rightarrow> Inl (AttributeError ''output_dir'')
         | Some dir \<Rightarrow>
        (case epochs self of
           None \<Rightarrow> Inl (AttributeError ''epochs'')
         | Some ep \<Rightarrow>
             Inr (dir, sort (glob_dir fs dir
                    (stem @ ''*i'' @ fmt04d ep @ ''*_b'' @ frac_balance self @ ''.txt''))))))"

text \<open>
  \<^verbatim>\<open>mode is 'metrics'\<close> compares identities; it holds for the default argument, which
  is the same interned constant, and the model reads it as equality of the text. With no
  file at all (possible in another mode) \<^verbatim>\<open>r\<close> is unbound at line 327 at the latest.
\<close>

definition create_df ::
  "conv_nn \<Rightarrow> filesystem \<Rightarrow> float64 \<Rightarrow> string \<Rightarrow> string \<Rightarrow> error + table" where
  "create_df self fs threshold mode data_set =
     (case find_files self fs data_set of
        Inl e \<Rightarrow> Inl e
      | Inr (dir, files) \<Rightarrow>
     if mode = ''metrics'' \<and> length files < 2
       then Inl (ValueError ''Can only calculate metrics for multiple models.'')
     else
     (case read_files fs dir files ([], [], None) of
        Inl e \<Rightarrow> Inl e
      | Inr (df, mean_arr, None) \<Rightarrow> Inl (UnboundLocalError ''r'')
      | Inr (df, mean_arr, Some r) \<Rightarrow>
     (case add_column df ''pred'' (nanmean_axis0 mean_arr) False of
        Inl e \<Rightarrow> Inl e
      | Inr df \<Rightarrow>
     (case getcol r ''gt'' of
        Inl e \<Rightarrow> Inl e
      | Inr gt \<Rightarrow>
     (case add_column df ''gt'' gt True of
        Inl e \<Rightarrow> Inl e
      | Inr df \<Rightarrow>
     (case getcol r ''tpeak'' of
        Inl e \<Rightarrow> Inl e
      | Inr tpeak \<Rightarrow>
     (case add_column df ''peak'' tpeak True of
        Inl e \<Rightarrow> Inl e
      | Inr df \<Rightarrow>
     (case getcol r ''# tic'' of
        Inl e \<Rightarrow> Inl e
      | Inr tic \<Rightarrow>
     (case add_column df ''tic'' tic True of
        Inl e \<Rightarrow> Inl e
      | Inr df \<Rightarrow>
     (case getcol df ''pred'' of
        Inl e \<Rightarrow> Inl e
      | Inr pred \<Rightarrow>
          add_column df ''pred_round'' (pred_round_of threshold pred) True))))))))))"

section \<open>Properties of the windowing loop\<close>

subsection \<open>What each branch computes\<close>

lemma cadence_pad_nonneg: "0 \<le> c \<Longrightarrow> cadence_pad c = c div 2"
  unfolding cadence_pad_def py_int_def
  by (metis divide_nonneg_nonneg floor_divide_of_int_eq of_int_0_le_iff of_int_numeral zero_le_numeral)

lemma left_branch_iff: "left_branch c i \<longleftrightarrow> 2 * int i \<le> c"
proof -
  have "real i \<le> real_of_int c / 2 \<longleftrightarrow> real_of_int (2 * int i) \<le> real_of_int c"
    by (simp add: field_simps)
  also have "\<dots> \<longleftrightarrow> 2 * int i \<le> c" by (simp only: of_int_le_iff)
  finally show ?thesis by (simp add: left_branch_def)
qed

lemma py_slice_nonneg:
  "0 \<le> a \<Longrightarrow> 0 \<le> b \<Longrightarrow> py_slice a b xs = take (nat b - nat a) (drop (nat a) xs)"
  by (auto simp: py_slice_def clamp_index_def Let_def min_def)

lemma window_right:
  assumes "0 \<le> c" and "\<not> 2 * int i \<le> c" and "int (length lc) - c div 2 \<le> int i"
    and "i < length lc"
  shows "window c lc i =
           Inr (drop (i - nat (c div 2)) lc
                @ replicate (nat c - (length lc - (i - nat (c div 2)))) 0)"
proof -
  have h: "0 \<le> c div 2" "c div 2 < int i" using assms by auto
  have lb: "\<not> left_branch c i" using assms(2) by (simp add: left_branch_iff)
  have rb: "right_branch c (length lc) i"
    using assms(1,3) by (simp add: right_branch_def cadence_pad_nonneg)
  have "nat (int i - c div 2) = i - nat (c div 2)" using h by linarith
  then have s: "py_slice (int i - c div 2) (int (length lc)) lc = drop (i - nat (c div 2)) lc"
    using h by (simp add: py_slice_nonneg)
  have le: "int (length lc - (i - nat (c div 2))) \<le> c"
    using assms h by linarith
  then have "nat \<bar>c - int (length lc - (i - nat (c div 2)))\<bar> = nat c - (length lc - (i - nat (c div 2)))"
    by linarith
  then have z: "np_zeros \<bar>c - int (length (drop (i - nat (c div 2)) lc))\<bar>
         = (Inr (replicate (nat c - (length lc - (i - nat (c div 2)))) 0) :: error + 'a list)"
    by (simp add: np_zeros_def)
  show ?thesis
    unfolding window_def Let_def cadence_pad_nonneg[OF assms(1)]
    by (simp only: lb rb if_True if_False s z sum.case)
qed

lemma window_interior:
  assumes "0 \<le> c" and "\<not> 2 * int i \<le> c" and "\<not> int (length lc) - c div 2 \<le> int i"
  shows "window c lc i = Inr (take (2 * nat (c div 2)) (drop (i - nat (c div 2)) lc))"
proof -
  have h: "0 \<le> c div 2" "c div 2 < int i" using assms by auto
  have lb: "\<not> left_branch c i" using assms(2) by (simp add: left_branch_iff)
  have rb: "\<not> right_branch c (length lc) i"
    using assms(1,3) by (simp add: right_branch_def cadence_pad_nonneg)
  have a: "nat (int i - c div 2) = i - nat (c div 2)" using h by linarith
  have b: "nat (int i + c div 2) - (i - nat (c div 2)) = 2 * nat (c div 2)"
    using h by linarith
  have s: "py_slice (int i - c div 2) (int i + c div 2) lc =
      take (2 * nat (c div 2)) (drop (i - nat (c div 2)) lc)"
    using h by (simp add: py_slice_nonneg a b)
  show ?thesis
    unfolding window_def Let_def cadence_pad_nonneg[OF assms(1)]
    by (simp only: lb rb if_True if_False s)
qed

lemma window_left:
  assumes "0 \<le> c" and "2 * int i \<le> c"
  shows "window c lc i =
           Inr (replicate (nat (c div 2) - i) 0 @ take (i + nat (c div 2)) lc)"
proof -
  have h: "0 \<le> c div 2" "int i \<le> c div 2" using assms by auto
  have lb: "left_branch c i" using assms(2) by (simp add: left_branch_iff)
  have "nat (c div 2 - int i) = nat (c div 2) - i" using h by linarith
  then have z: "np_zeros (c div 2 - int i) = (Inr (replicate (nat (c div 2) - i) 0) :: error + 'a list)"
    using h by (simp add: np_zeros_def)
  have "nat (int i + c div 2) = i + nat (c div 2)" using h by linarith
  then have s: "py_slice 0 (int i + c div 2) lc = take (i + nat (c div 2)) lc"
    using h by (simp add: py_slice_nonneg)
  show ?thesis
    unfolding window_def Let_def cadence_pad_nonneg[OF assms(1)]
    by (simp only: lb if_True s z sum.case)
qed

lemma window_total:
  assumes "0 \<le> c" and "i < length lc"
  shows "\<exists>f. window c lc i = Inr f \<and>
           length f =
             (if 2 * int i \<le> c then nat (c div 2) - i + min (length lc) (i + nat (c div 2))
              else if int (length lc) - c div 2 \<le> int i then nat c
              else 2 * nat (c div 2))"
proof (cases "2 * int i \<le> c")
  case True
  then show ?thesis using assms by (simp add: window_left)
next
  case nl: False
  show ?thesis
  proof (cases "int (length lc) - c div 2 \<le> int i")
    case True
    have "int (length lc - (i - nat (c div 2))) \<le> c" using assms nl True by linarith
    then have "length lc - (i - nat (c div 2)) + (nat c - (length lc - (i - nat (c div 2)))) = nat c"
      by linarith
    then show ?thesis using assms nl True by (simp add: window_right)
  next
    case False
    then have "2 * nat (c div 2) \<le> length lc - (i - nat (c div 2))" using assms nl by linarith
    then show ?thesis using assms nl False by (simp add: window_interior)
  qed
qed

lemma window_length_one:
  assumes "0 \<le> c" and "i < length lc" and "window c lc i = Inr f" and "length f = 1"
  shows "c = 1"
proof -
  define h where "h = nat (c div 2)"
  from window_total[OF assms(1,2)] assms(3,4)
  have eq: "(1::nat) =
             (if 2 * int i \<le> c then h - i + min (length lc) (i + h)
              else if int (length lc) - c div 2 \<le> int i then nat c
              else 2 * h)" by (auto simp: h_def)
  show ?thesis
  proof (cases "2 * int i \<le> c")
    case True
    then have "int i \<le> c div 2" by linarith
    then have ih: "i \<le> h" unfolding h_def by linarith
    from eq True have e: "h - i + min (length lc) (i + h) = 1" by simp
    show ?thesis
    proof (cases "h = 0")
      case True
      with ih e show ?thesis by simp
    next
      case False
      then have "i + 1 \<le> min (length lc) (i + h)" using assms(2) by simp
      with ih e False show ?thesis by linarith
    qed
  next
    case nl: False
    show ?thesis
    proof (cases "int (length lc) - c div 2 \<le> int i")
      case True
      with eq nl have "nat c = 1" by simp
      then show ?thesis by linarith
    next
      case False
      with eq nl have "2 * h = 1" by simp
      then show ?thesis by presburger
    qed
  qed
qed

lemma assign_row_window:
  assumes "0 \<le> c" and "i < length lc" and "window c lc i = Inr f"
  shows "assign_row c f = Inr r \<longleftrightarrow> r = f \<and> int (length f) = c"
  using window_length_one[OF assms] by (auto simp: assign_row_def)


lemma set_rows_succeeds_iff:
  "(\<exists>rd'. set_rows c lc is rd = Inr rd') \<longleftrightarrow>
   (\<forall>i\<in>set is. \<exists>f row. window c lc i = Inr f \<and> assign_row c f = Inr row)"
proof (induction "is" arbitrary: rd)
  case Nil
  then show ?case by simp
next
  case (Cons i "is")
  show ?case
  proof (cases "window c lc i")
    case (Inl e)
    then show ?thesis by auto
  next
    case f: (Inr f)
    show ?thesis
    proof (cases "assign_row c f")
      case (Inl e)
      then show ?thesis using f by auto
    next
      case (Inr row)
      then show ?thesis using f Cons.IH[of "rd[i := row]"] by auto
    qed
  qed
qed

lemma set_rows_fails:
  assumes "i \<in> set is" and "window c lc i = Inr f" and "assign_row c f = Inl e"
  shows "\<exists>e'. set_rows c lc is rd = Inl e'"
proof (cases "set_rows c lc is rd")
  case (Inl a)
  then show ?thesis by simp
next
  case (Inr b)
  then have "\<exists>rd'. set_rows c lc is rd = Inr rd'" by blast
  with assms show ?thesis unfolding set_rows_succeeds_iff by fastforce
qed


lemma build_windows_succeeds_iff:
  "(\<exists>rows. build_windows c lc = Inr rows) \<longleftrightarrow>
   0 \<le> c \<and> (\<forall>i<length lc. \<exists>f. window c lc i = Inr f \<and> int (length f) = c)"
proof (cases "0 \<le> c")
  case True
  have "(\<exists>rows. build_windows c lc = Inr rows) \<longleftrightarrow>
        (\<forall>i\<in>set [0..<length lc]. \<exists>f row. window c lc i = Inr f \<and> assign_row c f = Inr row)"
    using True by (simp add: build_windows_def set_rows_succeeds_iff)
  also have "\<dots> \<longleftrightarrow> (\<forall>i<length lc. \<exists>f. window c lc i = Inr f \<and> int (length f) = c)"
  proof -
    have "(\<exists>f row. window c lc i = Inr f \<and> assign_row c f = Inr row) \<longleftrightarrow>
          (\<exists>f. window c lc i = Inr f \<and> int (length f) = c)" if "i < length lc" for i
    proof
      assume "\<exists>f row. window c lc i = Inr f \<and> assign_row c f = Inr row"
      then obtain f row where f: "window c lc i = Inr f" "assign_row c f = Inr row" by blast
      from f(2) have "int (length f) = c" by (simp only: assign_row_window[OF True that f(1)])
      with f(1) show "\<exists>f. window c lc i = Inr f \<and> int (length f) = c" by blast
    next
      assume "\<exists>f. window c lc i = Inr f \<and> int (length f) = c"
      then obtain f where f: "window c lc i = Inr f" "int (length f) = c" by blast
      then have "assign_row c f = Inr f" by (simp add: assign_row_def)
      with f(1) show "\<exists>f row. window c lc i = Inr f \<and> assign_row c f = Inr row" by blast
    qed
    then show ?thesis by (simp add: Ball_def)
  qed
  finally show ?thesis using True by simp
next
  case False
  then show ?thesis by (simp add: build_windows_def)
qed


text \<open>The loop returns exactly for these inputs: no sample at all, or an even width and
  a series at least as long as the window (or one sample and a width of two).\<close>

lemma build_windows_succeeds_iff_even:
  "(\<exists>rows. build_windows c lc = Inr rows) \<longleftrightarrow>
   0 \<le> c \<and> (lc = [] \<or> (even c \<and> (c \<le> int (length lc) \<or> (c = 2 \<and> length lc = 1))))"
proof (cases "0 \<le> c")
  case False
  then show ?thesis by (simp add: build_windows_def)
next
  case c: True
  define h where "h = nat (c div 2)"
  define n where "n = length lc"
  have len: "(\<exists>f. window c lc i = Inr f \<and> int (length f) = c) \<longleftrightarrow>
             (if 2 * int i \<le> c then int (h - i + min n (i + h)) = c else even c \<or> int n - c div 2 \<le> int i)"
    if "i < n" for i
  proof -
    from window_total[OF c, of i lc] that obtain f where f: "window c lc i = Inr f"
      and l: "length f = (if 2 * int i \<le> c then h - i + min n (i + h)
              else if int n - c div 2 \<le> int i then nat c else 2 * h)"
      unfolding h_def n_def by blast
    have "int (2 * h) = 2 * (c div 2)" using c unfolding h_def by simp
    moreover have "2 * (c div 2) = c \<longleftrightarrow> even c" by presburger
    ultimately have "int (2 * h) = c \<longleftrightarrow> even c" by simp
    then show ?thesis using f l c by (auto split: if_splits)
  qed
  have iff: "(\<exists>rows. build_windows c lc = Inr rows) \<longleftrightarrow>
        (\<forall>i<n. if 2 * int i \<le> c then int (h - i + min n (i + h)) = c
                else even c \<or> int n - c div 2 \<le> int i)"
    using c len unfolding build_windows_succeeds_iff n_def by auto
  show ?thesis
  proof (cases "lc = []")
    case True
    then show ?thesis using c iff by (simp add: n_def)
  next
    case ne: False
    then have n0: "0 < n" by (simp add: n_def)
    show ?thesis
    proof
      assume "\<exists>rows. build_windows c lc = Inr rows"
      with iff have all: "\<forall>i<n. if 2 * int i \<le> c then int (h - i + min n (i + h)) = c
                else even c \<or> int n - c div 2 \<le> int i" by simp
      from all n0 c have z: "int (h + min n h) = c" by (auto dest!: spec[of _ 0])
      have hc: "2 * int h \<le> c" using c unfolding h_def by simp
      have "int (min n h) \<le> int h" by simp
      with z hc have c2: "c = 2 * int h" and mh: "min n h = h" by linarith+
      from mh have hn: "h \<le> n" by simp
      from c2 have ev: "even c" by simp
      have "c \<le> int n \<or> (c = 2 \<and> n = 1)"
      proof (cases "h < n")
        case True
        with all c2 have "int (h - h + min n (h + h)) = c" by (auto dest!: spec[of _ h])
        then show ?thesis using c2 by (auto simp: min_def split: if_splits)
      next
        case False
        with hn have e: "h = n" by simp
        with n0 all c2 have "int (h - (n - 1) + min n (n - 1 + h)) = c"
          by (auto dest!: spec[of _ "n - 1"])
        then show ?thesis using e n0 c2 by (auto simp: min_def split: if_splits)
      qed
      with c ne ev show "0 \<le> c \<and> (lc = [] \<or> (even c \<and> (c \<le> int (length lc) \<or> (c = 2 \<and> length lc = 1))))"
        by (simp add: n_def)
    next
      assume "0 \<le> c \<and> (lc = [] \<or> (even c \<and> (c \<le> int (length lc) \<or> (c = 2 \<and> length lc = 1))))"
      with ne have ev: "even c" and d: "c \<le> int n \<or> (c = 2 \<and> n = 1)" by (auto simp: n_def)
      have c2: "c = 2 * int h" using ev c unfolding h_def by auto
      have "int (h - i + min n (i + h)) = c" if "i < n" "2 * int i \<le> c" for i
        using d that c2 by (auto simp: min_def)
      with ev iff show "\<exists>rows. build_windows c lc = Inr rows" by simp
    qed
  qed
qed

lemma window_index_zero:
  assumes "2 \<le> length lc"
  shows "window 4 lc 0 = Inr [0, 0, lc ! 0, lc ! 1]"
proof -
  from assms obtain a b rest where "lc = a # b # rest"
    by (cases lc; cases "tl lc") auto
  then have "take 2 lc = [lc ! 0, lc ! 1]" by (simp add: numeral_2_eq_2)
  then show ?thesis by (simp add: window_left numeral_2_eq_2)
qed

subsection \<open>Claims about the windows\<close>









section \<open>Properties of \<^verbatim>\<open>ensemble_metrics\<close> and \<^verbatim>\<open>fetch_dir\<close>\<close>

lemma load_global_threshold: "load_global ''threshold'' = Inl (NameError ''threshold'')"
  by (simp add: load_global_def module_globals_def)

lemma load_global_warnings: "load_global ''warnings'' = Inl (NameError ''warnings'')"
  by (simp add: load_global_def module_globals_def)

lemma metrics_step_raises: "\<exists>e. metrics_step sk df val acc = Inl e"
  by (simp add: metrics_step_def load_global_threshold split: sum.splits)

lemma metrics_step_NameError:
  assumes "getcol df ''gt'' = Inr gt" and "getcol df val = Inr data"
    and "average_precision_score sk gt data = Inr a"
  shows "metrics_step sk df val acc = Inl (NameError ''threshold'')"
  using assms by (simp add: metrics_step_def load_global_threshold)

lemma metrics_loop_Inr: "metrics_loop sk df vals acc = Inr acc' \<Longrightarrow> vals = [] \<and> acc' = acc"
proof (cases vals)
  case Nil
  then show "metrics_loop sk df vals acc = Inr acc' \<Longrightarrow> vals = [] \<and> acc' = acc" by simp
next
  case (Cons v vs)
  assume "metrics_loop sk df vals acc = Inr acc'"
  with Cons metrics_step_raises[of sk df v acc] show ?thesis by auto
qed

lemma getcol_nth: "i < length df \<Longrightarrow> \<exists>c. getcol df (colnames df ! i) = Inr c"
proof -
  assume "i < length df"
  then have "colnames df ! i \<in> fst ` set df" by (simp add: colnames_def)
  then obtain c where "map_of df (colnames df ! i) = Some c"
    by (metis domD dom_map_of_conv_image_fst)
  then show ?thesis by (simp add: getcol_def)
qed

text \<open>
  Claim C3: for every table, \<^verbatim>\<open>ensemble_metrics\<close> raises before it assigns an
  attribute: the object is left as it was. If the table has a column at index 4 or
  later, and the calls before it return, the exception is the \<^verbatim>\<open>NameError\<close> of the
  unbound \<^verbatim>\<open>threshold\<close> in the first iteration of the loop; if it has none, and the
  sklearn calls return, it is the \<^verbatim>\<open>IndexError\<close> of \<^verbatim>\<open>ap[-1]\<close> on the empty list.
\<close>

theorem ensemble_metrics_raises:
  "(\<exists>e. ensemble_metrics sk self df = (self, Some e))
   \<and> (4 < length (colnames df) \<longrightarrow>
        (\<forall>gt data a. getcol df ''gt'' = Inr gt \<longrightarrow> getcol df (colnames df ! 4) = Inr data \<longrightarrow>
           average_precision_score sk gt data = Inr a \<longrightarrow>
           ensemble_metrics sk self df = (self, Some (NameError ''threshold''))))
   \<and> (length (colnames df) \<le> 4 \<longrightarrow>
        (\<forall>gt pred_round pred rs ps curves.
           getcol df ''gt'' = Inr gt \<longrightarrow> getcol df ''pred_round'' = Inr pred_round \<longrightarrow>
           getcol df ''pred'' = Inr pred \<longrightarrow> sk_recall_score sk gt pred_round = Inr rs \<longrightarrow>
           sk_precision_score sk gt pred_round = Inr ps \<longrightarrow>
           precision_recall_curve sk gt pred = Inr curves \<longrightarrow>
           ensemble_metrics sk self df = (self, Some (IndexError ''list index out of range''))))"
proof (intro conjI impI allI)
  show "\<exists>e. ensemble_metrics sk self df = (self, Some e)"
  proof (cases "metrics_loop sk df (drop 4 (colnames df)) ([], [])")
    case (Inl e)
    then show ?thesis by (simp add: ensemble_metrics_def)
  next
    case (Inr acc)
    from metrics_loop_Inr[OF Inr] have "acc = ([], [])" by simp
    with Inr show ?thesis
      by (simp add: ensemble_metrics_def last_item_def split: sum.splits prod.splits)
  qed
next
  fix gt data a
  assume n: "4 < length (colnames df)" and g: "getcol df ''gt'' = Inr gt"
    and d: "getcol df (colnames df ! 4) = Inr data"
    and a: "average_precision_score sk gt data = Inr a"
  from n have "drop 4 (colnames df) = colnames df ! 4 # drop 5 (colnames df)"
    by (metis Cons_nth_drop_Suc eval_nat_numeral(3))
  then show "ensemble_metrics sk self df = (self, Some (NameError ''threshold''))"
    by (simp add: ensemble_metrics_def metrics_step_NameError[OF g d a])
next
  fix gt pred_round pred rs ps curves
  assume "length (colnames df) \<le> 4" "getcol df ''gt'' = Inr gt"
    "getcol df ''pred_round'' = Inr pred_round" "getcol df ''pred'' = Inr pred"
    "sk_recall_score sk gt pred_round = Inr rs" "sk_precision_score sk gt pred_round = Inr ps"
    "precision_recall_curve sk gt pred = Inr curves"
  then show "ensemble_metrics sk self df = (self, Some (IndexError ''list index out of range''))"
    by (simp add: ensemble_metrics_def last_item_def split: prod.splits)
qed

theorem ensemble_metrics_raises_witness:
  "4 < length (colnames
         [(''pred_round'', [Num 1, Num 0]), (''tic'', [Num 7, Num 8]), (''peak'', [Num 3, Num 4]),
          (''gt'', [Num 1, Num 0]), (''s0001'', [Num 0.9, Num 0.2]),
          (''s0002'', [Num 0.7, Num 0.4]), (''pred'', [Num 0.8, Num 0.3])])
   \<and> ensemble_metrics
        \<lparr>average_precision_score = \<lambda>gt p. Inr (Num 1), sk_recall_score = \<lambda>gt p. Inr (Num 1),
         sk_precision_score = \<lambda>gt p. Inr (Num 1), precision_recall_curve = \<lambda>gt p. Inr ([], [])\<rparr>
        \<lparr>output_dir = Some ''.'', epochs = Some 350, frac_balance = ''0.73'',
         average_precision = None, accuracy = None, recall_score = None,
         precision_score = None, prec_recall_curve = None, history_table = None,
         val_pred_table = None, test_pred_table = None\<rparr>
        [(''pred_round'', [Num 1, Num 0]), (''tic'', [Num 7, Num 8]), (''peak'', [Num 3, Num 4]),
         (''gt'', [Num 1, Num 0]), (''s0001'', [Num 0.9, Num 0.2]),
         (''s0002'', [Num 0.7, Num 0.4]), (''pred'', [Num 0.8, Num 0.3])]
      = (\<lparr>output_dir = Some ''.'', epochs = Some 350, frac_balance = ''0.73'',
          average_precision = None, accuracy = None, recall_score = None,
          precision_score = None, prec_recall_curve = None, history_table = None,
         val_pred_table = None, test_pred_table = None\<rparr>,
         Some (NameError ''threshold''))
   \<and> length (colnames
         [(''pred_round'', [Num 1, Num 0]), (''pred'', [Num 0.8, Num 0.3]),
          (''peak'', [Num 3, Num 4]), (''gt'', [Num 1, Num 0])]) \<le> 4
   \<and> ensemble_metrics
        \<lparr>average_precision_score = \<lambda>gt p. Inr (Num 1), sk_recall_score = \<lambda>gt p. Inr (Num 1),
         sk_precision_score = \<lambda>gt p. Inr (Num 1), precision_recall_curve = \<lambda>gt p. Inr ([], [])\<rparr>
        \<lparr>output_dir = Some ''.'', epochs = Some 350, frac_balance = ''0.73'',
         average_precision = None, accuracy = None, recall_score = None,
         precision_score = None, prec_recall_curve = None, history_table = None,
         val_pred_table = None, test_pred_table = None\<rparr>
        [(''pred_round'', [Num 1, Num 0]), (''pred'', [Num 0.8, Num 0.3]),
         (''peak'', [Num 3, Num 4]), (''gt'', [Num 1, Num 0])]
      = (\<lparr>output_dir = Some ''.'', epochs = Some 350, frac_balance = ''0.73'',
          average_precision = None, accuracy = None, recall_score = None,
          precision_score = None, prec_recall_curve = None, history_table = None,
         val_pred_table = None, test_pred_table = None\<rparr>,
         Some (IndexError ''list index out of range''))"
proof -
  let ?sk = "\<lparr>average_precision_score = \<lambda>gt p. Inr (Num 1), sk_recall_score = \<lambda>gt p. Inr (Num 1),
         sk_precision_score = \<lambda>gt p. Inr (Num 1), precision_recall_curve = \<lambda>gt p. Inr ([], [])\<rparr>"
  let ?self = "\<lparr>output_dir = Some ''.'', epochs = Some 350, frac_balance = ''0.73'',
         average_precision = None, accuracy = None, recall_score = None,
         precision_score = None, prec_recall_curve = None, history_table = None,
         val_pred_table = None, test_pred_table = None\<rparr>"
  let ?df7 = "[(''pred_round'', [Num 1, Num 0]), (''tic'', [Num 7, Num 8]), (''peak'', [Num 3, Num 4]),
         (''gt'', [Num 1, Num 0]), (''s0001'', [Num 0.9, Num 0.2]),
         (''s0002'', [Num 0.7, Num 0.4]), (''pred'', [Num 0.8, Num 0.3])]"
  let ?df4 = "[(''pred_round'', [Num 1, Num 0]), (''pred'', [Num 0.8, Num 0.3]),
         (''peak'', [Num 3, Num 4]), (''gt'', [Num 1, Num 0])]"
  have a: "4 < length (colnames ?df7)" by (simp add: colnames_def)
  have b: "length (colnames ?df4) \<le> 4" by (simp add: colnames_def)
  have g7: "getcol ?df7 ''gt'' = Inr [Num 1, Num 0]"
    and d7: "getcol ?df7 (colnames ?df7 ! 4) = Inr [Num 0.9, Num 0.2]"
    by (simp_all add: getcol_def colnames_def)
  have g4: "getcol ?df4 ''gt'' = Inr [Num 1, Num 0]"
    and r4: "getcol ?df4 ''pred_round'' = Inr [Num 1, Num 0]"
    and p4: "getcol ?df4 ''pred'' = Inr [Num 0.8, Num 0.3]"
    by (simp_all add: getcol_def)
  from ensemble_metrics_raises [of ?sk ?self ?df7] a g7 d7
  have 1: "ensemble_metrics ?sk ?self ?df7 = (?self, Some (NameError ''threshold''))" by simp
  from ensemble_metrics_raises [of ?sk ?self ?df4] b g4 r4 p4
  have 2: "ensemble_metrics ?sk ?self ?df4 = (?self, Some (IndexError ''list index out of range''))"
    by simp
  from a b 1 2 show ?thesis by blast
qed

text \<open>
  Claim C10 says that \<^verbatim>\<open>fetch_dir\<close> falls back to the current directory when
  \<^verbatim>\<open>~/.stella\<close> does not exist and cannot be created, as the docstring of the method
  does. The code does not: the handler calls \<^verbatim>\<open>warnings.warn\<close>, the module never
  imports \<^verbatim>\<open>warnings\<close>, and the \<^verbatim>\<open>NameError\<close> leaves the method (and \<^verbatim>\<open>__init__\<close>)
  before \<^verbatim>\<open>output_dir\<close> is assigned.
\<close>

theorem fetch_dir_fallback_raises:
  "fetch_dir home (\<lambda>p. False) (\<lambda>p. False) self = (self, Some (NameError ''warnings''))
   \<and> init_output_dir home (\<lambda>p. False) (\<lambda>p. False) None self
       = (self, Some (NameError ''warnings''))"
  by (simp add: init_output_dir_def fetch_dir_def load_global_warnings)

section \<open>Properties of \<^verbatim>\<open>fill_in_sample\<close>\<close>

subsection \<open>Sorting the pairs\<close>


lemma sorted_map_fst:
  fixes ps :: "(real \<times> real) list"
  shows "sorted ps \<Longrightarrow> sorted (map fst ps)"
  by (induction ps) (auto simp: less_eq_prod_def)

lemma sort_index_permutation:
  fixes ps :: "('a::linorder) list"
  shows "\<exists>p. mset p = mset [0..<length ps] \<and> sort ps = map ((!) ps) p"
proof -
  let ?p = "sort_key ((!) ps) [0..<length ps]"
  have "mset (map ((!) ps) ?p) = mset (map ((!) ps) [0..<length ps])" by simp
  then have "mset (map ((!) ps) ?p) = mset ps" by (simp add: map_nth)
  moreover have "sorted (map ((!) ps) ?p)" by (rule sorted_sort_key)
  ultimately have "sort ps = map ((!) ps) ?p" by (rule properties_for_sort)
  moreover have "mset ?p = mset [0..<length ps]" by simp
  ultimately show ?thesis by blast
qed

lemma fill_gaps_Nil_iff: "fill_gaps rng m a [] s = Inr s" by simp

lemma fill_gap_lengths:
  assumes "fill_gap rng m a i (t, f, e, k) = Inr (t', f', e', k')"
    and "length t = length f" and "length f = length e"
  shows "length t' = length f' \<and> length f' = length e' \<and> length t \<le> length t'"
proof -
  from assms(1) obtain func new_time vals noise where
    a: "np_arange (t ! i) (t ! (i + 1)) m = Inr new_time"
    and v: "interp_eval func new_time = Inr vals"
    and n: "random_normal rng k a (length new_time) = Inr (noise, k')"
    and t': "np_insert t i new_time = Inr t'"
    and f': "np_insert f i (map2 (+) vals noise) = Inr f'"
    and e': "np_insert e i (replicate (length new_time) a) = Inr e'"
    by (auto simp: fill_gap_def Let_def split: sum.splits prod.splits)
  from v have lv: "length vals = length new_time"
    by (auto simp: interp_eval_def split: prod.splits if_splits)
  from n have ln: "length noise = length new_time"
    by (auto simp: random_normal_def split: if_splits)
  from t' have 1: "length t' = length t + length new_time"
    by (auto simp: np_insert_def split: if_splits)
  from f' lv ln have 2: "length f' = length f + length new_time"
    by (auto simp: np_insert_def split: if_splits)
  from e' have 3: "length e' = length e + length new_time"
    by (auto simp: np_insert_def split: if_splits)
  from 1 2 3 assms(2,3) show ?thesis by simp
qed

lemma fill_gaps_lengths:
  assumes "fill_gaps rng m a is (t, f, e, k) = Inr (t', f', e', k')"
    and "length t = length f" and "length f = length e"
  shows "length t' = length f' \<and> length f' = length e' \<and> length t \<le> length t'"
  using assms
proof (induction "is" arbitrary: t f e k)
  case Nil
  then show ?case by simp
next
  case (Cons i "is")
  from Cons.prems(1) obtain t1 f1 e1 k1 where
    s: "fill_gap rng m a i (t, f, e, k) = Inr (t1, f1, e1, k1)"
    and r: "fill_gaps rng m a is (t1, f1, e1, k1) = Inr (t', f', e', k')"
    by (auto split: sum.splits)
  from fill_gap_lengths[OF s Cons.prems(2,3)]
  have l: "length t1 = length f1" "length f1 = length e1" "length t \<le> length t1" by auto
  from Cons.IH[OF r l(1,2)] l(3) show ?case by simp
qed

subsection \<open>When the function returns\<close>


lemma gap_indices_bound: "i \<in> set (gap_indices sigma (np_diff t)) \<Longrightarrow> Suc i < length t"
  by (auto simp: gap_indices_def np_diff_def)

lemma py_slice_two:
  assumes "Suc i < length xs"
  shows "py_slice (int i) (int (i + 2)) xs = [xs ! i, xs ! Suc i]"
proof -
  have "nat (int (i + 2)) - nat (int i) = 2" by simp
  then have "py_slice (int i) (int (i + 2)) xs = take 2 (drop i xs)"
    by (simp only: py_slice_nonneg[of "int i" "int (i + 2)"] of_nat_0_le_iff nat_int)
  also have "\<dots> = [xs ! i, xs ! Suc i]"
    using assms by (simp add: take_Suc_conv_app_nth numeral_2_eq_2)
  finally show ?thesis .
qed

lemma arange_in_range:
  assumes "0 < m" and "x \<in> set (map (\<lambda>k. x0 + real k * m) [0..<nat \<lceil>(x1 - x0) / m\<rceil>])"
  shows "x0 \<le> x \<and> x < x1"
proof -
  from assms(2) obtain k where k: "k < nat \<lceil>(x1 - x0) / m\<rceil>" and x: "x = x0 + real k * m"
    by auto
  from k have "int k < \<lceil>(x1 - x0) / m\<rceil>" by linarith
  then have "real k < (x1 - x0) / m" by (simp add: less_ceiling_iff)
  then have "real k * m < x1 - x0" using assms(1) by (simp add: pos_less_divide_eq)
  moreover have "0 \<le> real k * m" using assms(1) by simp
  ultimately show ?thesis using x by simp
qed

lemma fill_gap_succeeds:
  assumes "Suc i < length t" and "length t = length f" and "length f = length e"
    and "0 < m" and "0 \<le> a"
  shows "\<exists>s'. fill_gap rng m a i (t, f, e, k) = Inr s'"
proof -
  define new_time where "new_time = map (\<lambda>k. t ! i + real k * m) [0..<nat \<lceil>(t ! Suc i - t ! i) / m\<rceil>]"
  have ar: "np_arange (t ! i) (t ! Suc i) m = Inr new_time"
    using assms(4) by (simp add: np_arange_def new_time_def)
  have rng: "\<forall>x\<in>set new_time. t ! i \<le> x \<and> x < t ! Suc i"
    using arange_in_range[OF assms(4)] unfolding new_time_def by blast
  obtain func where func: "interp1d [t ! i, t ! Suc i] [f ! i, f ! Suc i] = Inr func"
    and fdef: "func = (if t ! i \<le> t ! Suc i then ((t ! i, f ! i), (t ! Suc i, f ! Suc i))
                       else ((t ! Suc i, f ! Suc i), (t ! i, f ! i)))"
    by (simp add: interp1d_def)
  have "\<exists>vals. interp_eval func new_time = Inr vals"
  proof (cases "t ! i \<le> t ! Suc i")
    case True
    then show ?thesis using rng fdef
      by (auto simp: interp_eval_def list_ex_iff not_less dest: less_imp_le)
  next
    case False
    then have "new_time = []" using rng by (cases new_time) auto
    then show ?thesis by (simp add: interp_eval_def split: prod.splits)
  qed
  then obtain vals where vals: "interp_eval func new_time = Inr vals" by blast
  have f2: "Suc i < length f" using assms(1,2) by simp
  have ins: "\<not> length t < i" "\<not> length f < i" "\<not> length e < i" using assms(1,2,3) by auto
  have rn: "random_normal rng k a (length new_time)
            = Inr (map (\<lambda>j. 0 + a * rng (k + j)) [0..<length new_time], k + length new_time)"
    using assms(5) by (simp add: random_normal_def)
  show ?thesis
    unfolding fill_gap_def Let_def prod.case
    by (simp only: py_slice_two[OF assms(1)] py_slice_two[OF f2] func ar vals rn sum.case
          prod.case Suc_eq_plus1[symmetric] np_insert_def ins if_False) blast
qed

lemma fill_gaps_succeeds:
  assumes "\<forall>i\<in>set is. Suc i < length t" and "length t = length f" and "length f = length e"
    and "0 < m" and "0 \<le> a"
  shows "\<exists>s'. fill_gaps rng m a is (t, f, e, k) = Inr s'"
  using assms(1,2,3)
proof (induction "is" arbitrary: t f e k)
  case Nil
  then show ?case by simp
next
  case (Cons i "is")
  from fill_gap_succeeds[OF _ Cons.prems(2,3) assms(4,5), of i rng k] Cons.prems(1)
  obtain t1 f1 e1 k1 where s: "fill_gap rng m a i (t, f, e, k) = Inr (t1, f1, e1, k1)"
    by (metis list.set_intros(1) prod_cases4)
  from fill_gap_lengths[OF s Cons.prems(2,3)]
  have l: "length t1 = length f1" "length f1 = length e1" "length t \<le> length t1" by auto
  have "\<forall>j\<in>set is. Suc j < length t1" using Cons.prems(1) l(3) by auto
  from Cons.IH[OF this l(1,2)] s show ?case by simp
qed

lemma nanmedian_pos:
  assumes "xs \<noteq> []" and "\<forall>x\<in>set xs. 0 < x"
  shows "0 < nanmedian xs"
proof -
  have n: "0 < length xs" using assms(1) by simp
  have el: "0 < sort xs ! j" if "j < length xs" for j
  proof -
    from that have "sort xs ! j \<in> set (sort xs)" by (intro nth_mem) simp
    then have "sort xs ! j \<in> set xs" by simp
    then show ?thesis using assms(2) by blast
  qed
  have a: "length xs div 2 < length xs" using n by simp
  have b: "length xs div 2 - 1 < length xs" using n by linarith
  from el[OF a] el[OF b] n show ?thesis
    by (simp add: nanmedian_def Let_def)
qed

lemma np_diff_pos:
  assumes "sorted_wrt (<) t"
  shows "\<forall>d\<in>set (np_diff t). 0 < d"
proof
  fix d assume "d \<in> set (np_diff t)"
  then obtain i where "i < length t - 1" and d: "d = t ! Suc i - t ! i"
    by (auto simp: np_diff_def)
  then have i: "Suc i < length t" by linarith
  from assms i have "t ! i < t ! Suc i" by (simp add: sorted_wrt_nth_less)
  with d show "0 < d" by simp
qed

lemma nanstd_nonneg: "0 \<le> nanstd xs"
proof -
  have "0 \<le> sum_list (map (\<lambda>x. (x - mean xs)\<^sup>2) xs)"
    by (rule sum_list_nonneg) auto
  then show ?thesis by (simp add: nanstd_def mean_def)
qed

lemma fill_in_sample_returns:
  assumes "t \<noteq> []" and "length t = length f" and "length f = length e"
    and "sorted_wrt (<) t"
  shows "\<exists>r. fill_in_sample rng k sigma t f e = Inr r"
proof -
  let ?diff = "np_diff t"
  let ?ind = "gap_indices sigma ?diff"
  have "\<exists>s'. fill_gaps rng (nanmedian ?diff) (nanstd f / 2) ?ind (t, f, e, k) = Inr s'"
  proof (cases "?ind = []")
    case True
    then show ?thesis by simp
  next
    case False
    then have "?diff \<noteq> []" by (auto simp: gap_indices_def)
    then have m: "0 < nanmedian ?diff" using nanmedian_pos np_diff_pos[OF assms(4)] by blast
    have a: "0 \<le> nanstd f / 2" using nanstd_nonneg[of f] by simp
    have "\<forall>i\<in>set ?ind. Suc i < length t" using gap_indices_bound by blast
    from fill_gaps_succeeds[OF this assms(2,3) m a] show ?thesis .
  qed
  then obtain ti fi ei ki where
    s: "fill_gaps rng (nanmedian ?diff) (nanstd f / 2) ?ind (t, f, e, k) = Inr (ti, fi, ei, ki)"
    by (metis prod_cases4)
  from fill_gaps_lengths[OF s assms(2,3)] assms(1)
  have "ti \<noteq> []" "fi \<noteq> []" by auto
  then have "zip ti fi \<noteq> []" by (cases ti; cases fi) auto
  then have "sort (zip ti fi) \<noteq> []" by (metis length_sort length_0_conv)
  then show ?thesis
    using s by (auto simp: fill_in_sample_def Let_def split: list.splits)
qed

subsection \<open>Evenly spaced times\<close>

text \<open>When all differences are equal their standard deviation is zero and the threshold
  is the difference itself, so every index is flagged (the comparison is \<open>\<ge>\<close>). Each
  iteration then reads the arrays the earlier ones have shifted: in the example the
  interval from the first to the second sample is filled three times.\<close>

lemma nanmedian_replicate: "0 < m \<Longrightarrow> nanmedian (replicate m d) = d"
proof -
  assume m: "0 < m"
  have "sorted (replicate m d)" by (simp add: sorted_replicate)
  then have s: "sort (replicate m d) = replicate m d" by (rule sorted_sort_id)
  have "m div 2 < m" "m div 2 - 1 < m" using m by simp_all
  then show ?thesis using m by (simp add: nanmedian_def Let_def s)
qed

lemma nanstd_replicate: "nanstd (replicate m d) = 0"
proof (cases "m = 0")
  case True
  then show ?thesis by (simp add: nanstd_def mean_def)
next
  case False
  then have "mean (replicate m d) = d" by (simp add: mean_def sum_list_replicate)
  then have "map (\<lambda>x. (x - mean (replicate m d))\<^sup>2) (replicate m d) = replicate m 0"
    by simp
  then show ?thesis by (simp add: nanstd_def mean_def sum_list_replicate)
qed

lemma evenly_spaced_all_flagged:
  assumes "np_diff t = replicate m d" and "0 < m"
  shows "gap_indices sigma (np_diff t) = [0..<m]"
proof -
  have "filter (\<lambda>i. replicate m d ! i \<ge> d + sigma * 0) [0..<m] = [0..<m]"
    by (rule filter_True) simp
  then show ?thesis
    unfolding assms(1) gap_indices_def
    by (simp add: nanmedian_replicate[OF assms(2)] nanstd_replicate)
qed

lemma fill_in_sample_evenly_spaced_example:
  "fill_in_sample (\<lambda>j. 1) 0 (5 / 2) [0, 1, 2, 3] [0, 2, 0, 2] [1, 1, 1, 1]
     = Inr ([0, 0, 0, 0, 1, 2, 3], [0, 1 / 2, 1 / 2, 1 / 2, 2, 0, 2],
            [1 / 2, 1 / 2, 1 / 2, 1, 1, 1, 1], 3)"
proof -
  have d: "np_diff [0, 1, 2, 3] = replicate 3 1" by (simp add: np_diff_def upt_rec numeral_3_eq_3)
  have gi: "gap_indices (5 / 2) (np_diff [0, 1, 2, 3]) = [0, 1, 2]"
    using evenly_spaced_all_flagged[OF d, of "5 / 2"] by (simp add: upt_rec)
  have md: "nanmedian (np_diff [0, 1, 2, 3]) = 1" unfolding d by (simp add: nanmedian_replicate)
  have sf: "nanstd [0, 2, 0, 2] / 2 = 1 / 2" by (simp add: nanstd_def mean_def)
  have fg: "fill_gaps (\<lambda>j. 1) 1 (1 / 2) [0, 1, 2] ([0, 1, 2, 3], [0, 2, 0, 2], [1, 1, 1, 1], 0)
        = Inr ([0, 0, 0, 0, 1, 2, 3], [1 / 2, 1 / 2, 1 / 2, 0, 2, 0, 2],
               [1 / 2, 1 / 2, 1 / 2, 1, 1, 1, 1], 3)"
    by code_simp
  have so: "sort (zip [0, 0, 0, 0, 1, 2, 3 :: real] [1 / 2, 1 / 2, 1 / 2, 0, 2, 0, 2 :: real])
        = zip [0, 0, 0, 0, 1, 2, 3] [0, 1 / 2, 1 / 2, 1 / 2, 2, 0, 2]"
    by simp
  show ?thesis
    unfolding fill_in_sample_def Let_def gi sf md
    by (simp only: fg sum.case prod.case so) simp
qed

subsection \<open>Claims about gap filling\<close>




text \<open>
  Claim C5: when \<^verbatim>\<open>fill_in_sample\<close> returns on an input (arrays of one length) with at
  least one abnormal gap, the returned times are sorted in nondecreasing order; times
  and fluxes are the arrays left by the insertions, both rearranged by one permutation
  \<open>p\<close> of the indices (the one that sorts the pairs); the returned errors are the array
  left by the insertions, in insertion order; and the three have one length.
\<close>

theorem fill_in_sample_sorted:
  assumes "length t = length f" and "length f = length e"
    and "gap_indices sigma (np_diff t) \<noteq> []"
    and "fill_in_sample rng k sigma t f e = Inr (t', f', e', k')"
  shows "sorted t' \<and> length t' = length f' \<and> length f' = length e'
         \<and> (\<exists>ti fi. fill_gaps rng (nanmedian (np_diff t)) (nanstd f / 2)
                       (gap_indices sigma (np_diff t)) (t, f, e, k) = Inr (ti, fi, e', k')
               \<and> zip t' f' = sort (zip ti fi)
               \<and> (\<exists>p. mset p = mset [0..<length ti]
                      \<and> t' = map ((!) ti) p \<and> f' = map ((!) fi) p))"
proof -
  from assms(4) obtain ti fi where
    s: "fill_gaps rng (nanmedian (np_diff t)) (nanstd f / 2)
          (gap_indices sigma (np_diff t)) (t, f, e, k) = Inr (ti, fi, e', k')"
    and t': "t' = map fst (sort (zip ti fi))" and f': "f' = map snd (sort (zip ti fi))"
    by (auto simp: fill_in_sample_def Let_def split: sum.splits list.splits)
  from fill_gaps_lengths[OF s assms(1,2)]
  have l: "length ti = length fi" "length fi = length e'" by auto
  have z: "zip t' f' = sort (zip ti fi)" unfolding t' f' by (simp add: zip_map_fst_snd)
  have "sorted (sort (zip ti fi))" by simp
  then have st: "sorted t'" unfolding t' by (rule sorted_map_fst)
  have lt: "length t' = length ti" "length f' = length ti" unfolding t' f' using l by simp_all
  from sort_index_permutation[of "zip ti fi"] obtain p where
    p: "mset p = mset [0..<length ti]" "sort (zip ti fi) = map ((!) (zip ti fi)) p"
    using l by auto
  have inb: "\<forall>j\<in>set p. j < length ti"
    using p(1) by (metis atLeastLessThan_iff mset_eq_setD set_upt)
  have "t' = map ((!) ti) p" unfolding t' p(2) using inb l by (simp add: comp_def)
  moreover have "f' = map ((!) fi) p" unfolding f' p(2) using inb l by (simp add: comp_def)
  ultimately show ?thesis using st lt l s z p(1) by auto
qed

theorem fill_in_sample_sorted_witness:
  "length [0, 1, 2, 8, 9, 10 :: real] = length [0, 2, 0, 2, 0, 2 :: real]
   \<and> length [0, 2, 0, 2, 0, 2 :: real] = length [1, 1, 1, 1, 1, 1 :: real]
   \<and> gap_indices (5 / 2) (np_diff [0, 1, 2, 8, 9, 10]) = [2]
   \<and> fill_gaps (\<lambda>j. 1) 1 (1 / 2) [2]
        ([0, 1, 2, 8, 9, 10], [0, 2, 0, 2, 0, 2], [1, 1, 1, 1, 1, 1], 0)
       = Inr ([0, 1, 2, 3, 4, 5, 6, 7, 2, 8, 9, 10],
              [0, 2, 1 / 2, 5 / 6, 7 / 6, 3 / 2, 11 / 6, 13 / 6, 0, 2, 0, 2],
              [1, 1, 1 / 2, 1 / 2, 1 / 2, 1 / 2, 1 / 2, 1 / 2, 1, 1, 1, 1], 6)
   \<and> fill_in_sample (\<lambda>j. 1) 0 (5 / 2)
        [0, 1, 2, 8, 9, 10] [0, 2, 0, 2, 0, 2] [1, 1, 1, 1, 1, 1]
       = Inr ([0, 1, 2, 2, 3, 4, 5, 6, 7, 8, 9, 10],
              [0, 2, 0, 1 / 2, 5 / 6, 7 / 6, 3 / 2, 11 / 6, 13 / 6, 2, 0, 2],
              [1, 1, 1 / 2, 1 / 2, 1 / 2, 1 / 2, 1 / 2, 1 / 2, 1, 1, 1, 1], 6)
   \<and> sorted [0, 1, 2, 2, 3, 4, 5, 6, 7, 8, 9, 10 :: real]"
proof -
  let ?t = "[0, 1, 2, 8, 9, 10 :: real]"
  let ?f = "[0, 2, 0, 2, 0, 2 :: real]"
  let ?e = "[1, 1, 1, 1, 1, 1 :: real]"
  let ?ti = "[0, 1, 2, 3, 4, 5, 6, 7, 2, 8, 9, 10 :: real]"
  let ?fi = "[0, 2, 1 / 2, 5 / 6, 7 / 6, 3 / 2, 11 / 6, 13 / 6, 0, 2, 0, 2 :: real]"
  let ?ei = "[1, 1, 1 / 2, 1 / 2, 1 / 2, 1 / 2, 1 / 2, 1 / 2, 1, 1, 1, 1 :: real]"
  let ?t' = "[0, 1, 2, 2, 3, 4, 5, 6, 7, 8, 9, 10 :: real]"
  let ?f' = "[0, 2, 0, 1 / 2, 5 / 6, 7 / 6, 3 / 2, 11 / 6, 13 / 6, 2, 0, 2 :: real]"
  have d: "np_diff ?t = [1, 1, 6, 1, 1]" by (simp add: np_diff_def upt_rec)
  have md: "nanmedian [1, 1, 6, 1, 1] = 1" by (simp add: nanmedian_def)
  have sd: "nanstd [1, 1, 6, 1, 1] = 2" by (simp add: nanstd_def mean_def)
  have gi: "gap_indices (5 / 2) (np_diff ?t) = [2]"
    unfolding d by (simp add: gap_indices_def md sd upt_rec)
  have sf: "nanstd ?f / 2 = 1 / 2" by (simp add: nanstd_def mean_def)
  have fg: "fill_gaps (\<lambda>j. 1) 1 (1 / 2) [2] (?t, ?f, ?e, 0) = Inr (?ti, ?fi, ?ei, 6)"
    by code_simp
  have so: "sort (zip ?ti ?fi) = zip ?t' ?f'" by simp
  have run: "fill_in_sample (\<lambda>j. 1) 0 (5 / 2) ?t ?f ?e = Inr (?t', ?f', ?ei, 6)"
    unfolding fill_in_sample_def Let_def gi sf
    by (simp only: d md fg sum.case prod.case so) simp
  have ne: "gap_indices (5 / 2) (np_diff ?t) \<noteq> []" by (simp only: gi) simp
  from fill_in_sample_sorted [OF _ _ ne run] have "sorted ?t'" by simp
  with gi fg run show ?thesis by simp
qed

section \<open>Properties of \<^verbatim>\<open>create_df\<close>\<close>

subsection \<open>The exceptions it can raise\<close>

lemma add_column_error:
  "add_column df name col front = Inl e \<Longrightarrow>
   e = ValueError ''Duplicate column names'' \<or> e = ValueError ''Inconsistent data column lengths''"
  by (auto simp: add_column_def split: if_splits)

lemma getcol_error: "getcol df name = Inl e \<Longrightarrow> e = KeyError name"
  by (auto simp: getcol_def split: option.splits)

lemma table_read_error:
  "table_read fs dir path = Inl e \<Longrightarrow>
   e = OSError ''No such file or directory'' \<or> e = LibraryError ''not a text table''"
  by (auto simp: table_read_def split: option.splits file_content.splits)

lemma other_errors:
  "add_column df name col front = Inl e \<Longrightarrow>
     e \<noteq> ValueError ''Can only calculate metrics for multiple models.''"
  "getcol df name = Inl e \<Longrightarrow> e \<noteq> ValueError ''Can only calculate metrics for multiple models.''"
  "table_read fs dir path = Inl e \<Longrightarrow>
     e \<noteq> ValueError ''Can only calculate metrics for multiple models.''"
  using add_column_error[of df name col front e] getcol_error[of df name e]
    table_read_error[of fs dir path e]
  by auto

lemma read_files_error:
  "read_files fs dir files state = Inl e \<Longrightarrow>
   e \<noteq> ValueError ''Can only calculate metrics for multiple models.''"
proof (induction files arbitrary: state)
  case Nil
  then show ?case by simp
next
  case (Cons val vals)
  obtain df mean_arr last_r where st: "state = (df, mean_arr, last_r)" by (cases state) auto
  show ?case
  proof (cases "table_read fs dir val")
    case (Inl a)
    with Cons.prems st show ?thesis by (auto dest: other_errors)
  next
    case r: (Inr r)
    show ?thesis
    proof (cases "getcol r ''pred''")
      case (Inl a)
      with Cons.prems st r show ?thesis by (auto dest: other_errors)
    next
      case p: (Inr pred)
      show ?thesis
      proof (cases "add_column df (seed_column_name val) (map (np_round 3) pred) False")
        case (Inl a)
        with Cons.prems st r p show ?thesis by (auto dest: other_errors)
      next
        case (Inr df')
        with Cons.prems st r p Cons.IH show ?thesis by auto
      qed
    qed
  qed
qed

lemma create_df_after_check_error:
  assumes "find_files self fs data_set = Inr (dir, files)"
    and "\<not> (mode = ''metrics'' \<and> length files < 2)"
    and "create_df self fs threshold mode data_set = Inl e"
  shows "e \<noteq> ValueError ''Can only calculate metrics for multiple models.''"
  using assms unfolding create_df_def
  by (auto split: sum.splits prod.splits option.splits if_splits
        dest: other_errors read_files_error)

lemma find_files_Inr_iff:
  "(\<exists>dir files. find_files self fs data_set = Inr (dir, files)) \<longleftrightarrow>
   (lower data_set = ''validation'' \<or> lower data_set = ''test'')
   \<and> output_dir self \<noteq> None \<and> epochs self \<noteq> None"
  by (auto simp: find_files_def Let_def split: option.splits)

text \<open>
  Claim C8: in the default mode \<^verbatim>\<open>'metrics'\<close>, once the prediction files are listed
  (\<^verbatim>\<open>data_set\<close> is \<^verbatim>\<open>'validation'\<close> or \<^verbatim>\<open>'test'\<close> in any case of letters),
  \<^verbatim>\<open>create_df\<close> raises \<^verbatim>\<open>ValueError("Can only calculate metrics for multiple models.")\<close>
  whenever fewer than two files are found, and never raises that error when two or more
  are.
\<close>

theorem create_df_needs_two_files:
  assumes "find_files self fs data_set = Inr (dir, files)"
  shows "(length files < 2 \<longrightarrow>
            create_df self fs threshold ''metrics'' data_set
              = Inl (ValueError ''Can only calculate metrics for multiple models.''))
         \<and> (2 \<le> length files \<longrightarrow>
            create_df self fs threshold ''metrics'' data_set
              \<noteq> Inl (ValueError ''Can only calculate metrics for multiple models.''))"
proof (intro conjI impI)
  assume "length files < 2"
  then show "create_df self fs threshold ''metrics'' data_set
              = Inl (ValueError ''Can only calculate metrics for multiple models.'')"
    using assms by (simp add: create_df_def)
next
  assume "2 \<le> length files"
  then have "\<not> (''metrics'' = ''metrics'' \<and> length files < 2)" by simp
  from create_df_after_check_error[OF assms this]
  show "create_df self fs threshold ''metrics'' data_set
              \<noteq> Inl (ValueError ''Can only calculate metrics for multiple models.'')"
    by blast
qed

theorem create_df_needs_two_files_witness:
  "find_files
     \<lparr>output_dir = Some ''out'', epochs = Some 5, frac_balance = ''0.73'',
      average_precision = None, accuracy = None, recall_score = None,
      precision_score = None, prec_recall_curve = None, history_table = None,
      val_pred_table = None, test_pred_table = None\<rparr>
     [(''predval_s0001_i0005_b0.73.txt'',
       AsciiTable [(''# tic'', [Num 11]), (''pred'', [Num 0.9]), (''gt'', [Num 1]), (''tpeak'', [Num 3])])]
     ''validation''
   = Inr (''out'', [''out/predval_s0001_i0005_b0.73.txt''])
   \<and> create_df
     \<lparr>output_dir = Some ''out'', epochs = Some 5, frac_balance = ''0.73'',
      average_precision = None, accuracy = None, recall_score = None,
      precision_score = None, prec_recall_curve = None, history_table = None,
      val_pred_table = None, test_pred_table = None\<rparr>
     [(''predval_s0001_i0005_b0.73.txt'',
       AsciiTable [(''# tic'', [Num 11]), (''pred'', [Num 0.9]), (''gt'', [Num 1]), (''tpeak'', [Num 3])])]
     (Num 0.5) ''metrics'' ''validation''
   = Inl (ValueError ''Can only calculate metrics for multiple models.'')
   \<and> find_files
     \<lparr>output_dir = Some ''out'', epochs = Some 5, frac_balance = ''0.73'',
      average_precision = None, accuracy = None, recall_score = None,
      precision_score = None, prec_recall_curve = None, history_table = None,
      val_pred_table = None, test_pred_table = None\<rparr>
     [(''predval_s0002_i0005_b0.73.txt'',
       AsciiTable [(''# tic'', [Num 11]), (''pred'', [Num 0.3]), (''gt'', [Num 1]), (''tpeak'', [Num 3])]),
      (''predval_s0001_i0005_b0.73.txt'',
       AsciiTable [(''# tic'', [Num 11]), (''pred'', [Num 0.9]), (''gt'', [Num 1]), (''tpeak'', [Num 3])])]
     ''validation''
   = Inr (''out'', [''out/predval_s0001_i0005_b0.73.txt'', ''out/predval_s0002_i0005_b0.73.txt''])
   \<and> create_df
     \<lparr>output_dir = Some ''out'', epochs = Some 5, frac_balance = ''0.73'',
      average_precision = None, accuracy = None, recall_score = None,
      precision_score = None, prec_recall_curve = None, history_table = None,
      val_pred_table = None, test_pred_table = None\<rparr>
     [(''predval_s0002_i0005_b0.73.txt'',
       AsciiTable [(''# tic'', [Num 11]), (''pred'', [Num 0.3]), (''gt'', [Num 1]), (''tpeak'', [Num 3])]),
      (''predval_s0001_i0005_b0.73.txt'',
       AsciiTable [(''# tic'', [Num 11]), (''pred'', [Num 0.9]), (''gt'', [Num 1]), (''tpeak'', [Num 3])])]
     (Num 0.5) ''metrics'' ''validation''
   \<noteq> Inl (ValueError ''Can only calculate metrics for multiple models.'')"
proof -
  let ?self = "\<lparr>output_dir = Some ''out'', epochs = Some 5, frac_balance = ''0.73'',
      average_precision = None, accuracy = None, recall_score = None,
      precision_score = None, prec_recall_curve = None, history_table = None,
      val_pred_table = None, test_pred_table = None\<rparr>"
  let ?fs1 = "[(''predval_s0001_i0005_b0.73.txt'',
       AsciiTable [(''# tic'', [Num 11]), (''pred'', [Num 0.9]), (''gt'', [Num 1]), (''tpeak'', [Num 3])])]"
  let ?fs2 = "[(''predval_s0002_i0005_b0.73.txt'',
       AsciiTable [(''# tic'', [Num 11]), (''pred'', [Num 0.3]), (''gt'', [Num 1]), (''tpeak'', [Num 3])]),
      (''predval_s0001_i0005_b0.73.txt'',
       AsciiTable [(''# tic'', [Num 11]), (''pred'', [Num 0.9]), (''gt'', [Num 1]), (''tpeak'', [Num 3])])]"
  have f1: "find_files ?self ?fs1 ''validation'' = Inr (''out'', [''out/predval_s0001_i0005_b0.73.txt''])"
    by code_simp
  have f2: "find_files ?self ?fs2 ''validation''
       = Inr (''out'', [''out/predval_s0001_i0005_b0.73.txt'', ''out/predval_s0002_i0005_b0.73.txt''])"
    by code_simp
  from create_df_needs_two_files [OF f1, of "Num 0.5"]
  have 1: "create_df ?self ?fs1 (Num 0.5) ''metrics'' ''validation''
           = Inl (ValueError ''Can only calculate metrics for multiple models.'')" by simp
  from create_df_needs_two_files [OF f2, of "Num 0.5"]
  have 2: "create_df ?self ?fs2 (Num 0.5) ''metrics'' ''validation''
           \<noteq> Inl (ValueError ''Can only calculate metrics for multiple models.'')" by simp
  from f1 f2 1 2 show ?thesis by blast
qed

text \<open>With two files of one row each the table comes out as follows.\<close>

lemma create_df_two_files_example:
  "create_df
     \<lparr>output_dir = Some ''out'', epochs = Some 5, frac_balance = ''0.73'',
      average_precision = None, accuracy = None, recall_score = None,
      precision_score = None, prec_recall_curve = None, history_table = None,
      val_pred_table = None, test_pred_table = None\<rparr>
     [(''predval_s0002_i0005_b0.73.txt'',
       AsciiTable [(''# tic'', [Num 11]), (''pred'', [Num 0.3]), (''gt'', [Num 1]), (''tpeak'', [Num 3])]),
      (''predval_s0001_i0005_b0.73.txt'',
       AsciiTable [(''# tic'', [Num 11]), (''pred'', [Num 0.9]), (''gt'', [Num 1]), (''tpeak'', [Num 3])])]
     (Num 0.5) ''metrics'' ''validation''
   = Inr [(''pred_round'', [Num 1]), (''tic'', [Num 11]), (''peak'', [Num 3]), (''gt'', [Num 1]),
          (''s0001'', [Num 0.9]), (''s0002'', [Num 0.3]), (''pred'', [Num 0.6])]"
  by code_simp

subsection \<open>The table it builds\<close>

lemma add_column_back_Inr:
  assumes "add_column df name col False = Inr df'"
  shows "df' = df @ [(name, col)]" and "name \<notin> set (colnames df)"
  using assms by (auto simp: add_column_def split: if_splits)







section \<open>Saving with \<^verbatim>\<open>train_models\<close>, then \<^verbatim>\<open>create_df\<close>\<close>

subsection \<open>File names\<close>

lemma dec_digits: "set (dec n) \<subseteq> set ''0123456789''"
proof -
  define D where "D = ''0123456789''"
  have len: "length D = 10" by (simp add: D_def)
  have "set (dec n) \<subseteq> set D"
  proof (induction n rule: dec.induct)
    case (1 n)
    show ?case
    proof (cases "n < 10")
      case True
      then have "dec n = [D ! n]" unfolding D_def by (subst dec.simps) (simp only: if_True)
      then show ?thesis using True len by simp
    next
      case False
      then have "dec n = dec (n div 10) @ [D ! (n mod 10)]"
        unfolding D_def by (subst dec.simps) (simp only: if_False)
      then show ?thesis using "1.IH"[OF False] len by simp
    qed
  qed
  then show ?thesis by (simp only: D_def)
qed

lemma dec_plain: "CHR ''*'' \<notin> set (dec n)" "CHR ''?'' \<notin> set (dec n)"
proof -
  have "CHR ''*'' \<notin> set ''0123456789''" "CHR ''?'' \<notin> set ''0123456789''" by simp_all
  with dec_digits[of n] show "CHR ''*'' \<notin> set (dec n)" "CHR ''?'' \<notin> set (dec n)"
    by (meson subsetD)+
qed

lemma zfill_plain:
  assumes "c \<noteq> CHR ''0''" and "c \<notin> set s"
  shows "c \<notin> set (zfill w s)"
  using assms by (auto simp: zfill_def)

lemma fmt04d_plain: "CHR ''*'' \<notin> set (fmt04d n)" "CHR ''?'' \<notin> set (fmt04d n)"
  using zfill_plain[of "CHR ''*''" "dec (nat n)" 4] zfill_plain[of "CHR ''*''" "dec (nat (- n))" 3]
    zfill_plain[of "CHR ''?''" "dec (nat n)" 4] zfill_plain[of "CHR ''?''" "dec (nat (- n))" 3]
    dec_plain[of "nat n"] dec_plain[of "nat (- n)"]
  by (simp_all add: fmt04d_def)

lemma glob_match_literal:
  assumes "CHR ''*'' \<notin> set l" and "CHR ''?'' \<notin> set l"
  shows "glob_match (l @ p) (l @ s) = glob_match p s"
  using assms by (induction l) auto

lemma glob_match_star: "glob_match p s \<Longrightarrow> glob_match (CHR ''*'' # p) (x @ s)"
proof (induction x)
  case Nil
  then show ?case by (cases s) auto
next
  case (Cons a x)
  then show ?case by simp
qed

lemma glob_match_refl:
  assumes "CHR ''*'' \<notin> set l" and "CHR ''?'' \<notin> set l"
  shows "glob_match l l"
  using glob_match_literal[OF assms, of "[]" "[]"] by simp

lemma glob_match_table_name:
  assumes "CHR ''*'' \<notin> set balance" and "CHR ''?'' \<notin> set balance"
    and "CHR ''*'' \<notin> set stem" and "CHR ''?'' \<notin> set stem"
  shows "glob_match (stem @ ''*i'' @ fmt04d n @ ''*_b'' @ balance @ ''.txt'')
           (stem @ fmt_table n balance)"
proof -
  have t: "glob_match (''_b'' @ balance @ ''.txt'') (''_b'' @ balance @ ''.txt'')"
    by (rule glob_match_refl) (use assms in auto)
  have "glob_match (CHR ''*'' # ''_b'' @ balance @ ''.txt'') ([] @ ''_b'' @ balance @ ''.txt'')"
    using t by (rule glob_match_star)
  then have "glob_match ((''i'' @ fmt04d n) @ CHR ''*'' # ''_b'' @ balance @ ''.txt'')
               ((''i'' @ fmt04d n) @ ''_b'' @ balance @ ''.txt'')"
    by (subst glob_match_literal) (use fmt04d_plain in auto)
  then have "glob_match (CHR ''*'' # (''i'' @ fmt04d n) @ CHR ''*'' # ''_b'' @ balance @ ''.txt'')
               (''_'' @ (''i'' @ fmt04d n) @ ''_b'' @ balance @ ''.txt'')"
    by (rule glob_match_star)
  then have "glob_match (stem @ CHR ''*'' # (''i'' @ fmt04d n) @ CHR ''*'' # ''_b'' @ balance @ ''.txt'')
               (stem @ ''_'' @ (''i'' @ fmt04d n) @ ''_b'' @ balance @ ''.txt'')"
    by (subst glob_match_literal) (use assms in auto)
  then show ?thesis by (simp add: fmt_table_def)
qed

lemma path_join_inject: "path_join dir a = path_join dir b \<Longrightarrow> a = b"
  by (auto simp: path_join_def split: if_splits)

lemma lower_validation: "lower ''validation'' = ''validation''"
  by code_simp

lemma written_name_is_not_per_seed:
  "''predval'' @ fmt_table n balance \<noteq> predval_fmt seed n balance"
  by (simp add: fmt_table_def predval_fmt_def)

subsection \<open>The directory\<close>

lemma map_of_fs_write:
  "map_of (fs_write fs name content) k = (if k = name then Some content else map_of fs k)"
proof -
  have "map_of (filter (\<lambda>entry. fst entry \<noteq> name) fs) k = map_of fs k" if "k \<noteq> name"
    using that by (induction fs) auto
  then show ?thesis by (simp add: fs_write_def)
qed

lemma write_all_None:
  assumes "write_all io_ok fs entries = (fs', None)" and "distinct (map fst entries)"
    and "(name, tbl) \<in> set entries"
  shows "map_of fs' name = Some (AsciiTable tbl)"
proof -
  have keep: "map_of fs' k = map_of fs k"
    if "write_all io_ok fs entries = (fs', None)" and "k \<notin> fst ` set entries" for fs fs' entries k
    using that
  proof (induction entries arbitrary: fs)
    case Nil
    then show ?case by simp
  next
    case (Cons a entries)
    obtain n t where a: "a = (n, t)" by (cases a)
    from Cons.prems(1) a have ok: "io_ok n"
      and r: "write_all io_ok (fs_write fs n (AsciiTable t)) entries = (fs', None)"
      by (auto split: if_splits)
    from Cons.IH[OF r] Cons.prems(2) a show ?case by (simp add: map_of_fs_write)
  qed
  from assms show ?thesis
  proof (induction entries arbitrary: fs)
    case Nil
    then show ?case by simp
  next
    case (Cons a entries)
    obtain n t where a: "a = (n, t)" by (cases a)
    from Cons.prems(1) a have r: "write_all io_ok (fs_write fs n (AsciiTable t)) entries = (fs', None)"
      by (auto split: if_splits)
    show ?case
    proof (cases "(name, tbl) \<in> set entries")
      case True
      from Cons.IH[OF r _ True] Cons.prems(2) show ?thesis by simp
    next
      case False
      with Cons.prems(3) a have e: "n = name" "t = tbl" by auto
      from Cons.prems(2) a e have "name \<notin> fst ` set entries" by auto
      from keep[OF r this] e show ?thesis by (simp add: map_of_fs_write)
    qed
  qed
qed

lemma table_read_written:
  assumes "map_of fs name = Some (AsciiTable tbl)"
  shows "table_read fs dir (path_join dir name) = Inr tbl"
proof -
  have "map_of (map (\<lambda>entry. (path_join dir (fst entry), snd entry)) fs) (path_join dir name)
        = map_of fs name"
    by (induction fs) (auto dest: path_join_inject)
  with assms show ?thesis by (simp add: table_read_def)
qed

lemma glob_dir_finds:
  assumes "map_of fs name = Some content" and "glob_match pat name"
  shows "path_join dir name \<in> set (glob_dir fs dir pat)"
proof -
  from assms(1) have "name \<in> fst ` set fs" by (metis domI dom_map_of_conv_image_fst)
  with assms(2) show ?thesis by (auto simp: glob_dir_def)
qed

subsection \<open>What \<^verbatim>\<open>train_models\<close> writes\<close>

lemma add_columns_Inr: "add_columns df cols = Inr df' \<Longrightarrow> df' = df @ cols"
proof (induction cols arbitrary: df)
  case Nil
  then show ?case by simp
next
  case (Cons a cols)
  obtain name col where a: "a = (name, col)" by (cases a)
  from Cons.prems a obtain df1 where 1: "add_column df name col False = Inr df1"
    and 2: "add_columns df1 cols = Inr df'"
    by (auto split: sum.splits)
  from Cons.IH[OF 2] add_column_back_Inr(1)[OF 1] a show ?case by simp
qed

lemma train_seed_None:
  assumes "train_seed clf io_ok self n pred_test seed (tbl, vt, tt, fs)
             = ((tbl', vt', tt', fs'), None)"
  shows "\<exists>vp. vt' = vt @ [(''pred'' @ seed_suffix seed, vp)]"
  using assms unfolding train_seed_def Let_def
  by (auto split: sum.splits if_splits dest: add_column_back_Inr(1))

lemma train_seeds_None:
  assumes "train_seeds clf io_ok self n pred_test seeds (tbl, vt, tt, fs)
             = ((tbl', vt', tt', fs'), None)"
  shows "colnames vt' = colnames vt @ map (\<lambda>seed. ''pred'' @ seed_suffix seed) seeds"
  using assms
proof (induction seeds arbitrary: tbl vt tt fs)
  case Nil
  then show ?case by simp
next
  case (Cons seed seeds)
  from Cons.prems obtain tbl1 vt1 tt1 fs1 where
    1: "train_seed clf io_ok self n pred_test seed (tbl, vt, tt, fs) = ((tbl1, vt1, tt1, fs1), None)"
    and 2: "train_seeds clf io_ok self n pred_test seeds (tbl1, vt1, tt1, fs1)
             = ((tbl', vt', tt', fs'), None)"
    by (auto split: prod.splits option.splits)
  from train_seed_None[OF 1] obtain vp where "vt1 = vt @ [(''pred'' @ seed_suffix seed, vp)]" ..
  with Cons.IH[OF 2] show ?case by (simp add: colnames_def)
qed

lemma train_models_saved:
  assumes "train_models clf io_ok ds self fs seeds n pred_test True = (self', fs', None)"
  shows "epochs self' = Some n" and "frac_balance self' = frac_balance self"
    and "output_dir self' = output_dir self" and "output_dir self \<noteq> None"
    and "\<exists>val_table.
           map_of fs' (''predval'' @ fmt_table n (frac_balance self)) = Some (AsciiTable val_table)
           \<and> colnames val_table
               = [''tic'', ''gt'', ''tpeak''] @ map (\<lambda>seed. ''pred'' @ seed_suffix seed) seeds"
proof -
  let ?self = "self\<lparr>epochs := Some n\<rparr>"
  from assms obtain vt0 tt0 where
    v: "add_columns [] [(''tic'', val_ids ds), (''gt'', val_labels ds), (''tpeak'', val_tpeaks ds)]
          = Inr vt0"
    and t: "add_columns []
          [(''tic'', test_ids ds), (''gt'', test_labels ds), (''tpeak'', test_tpeaks ds)] = Inr tt0"
    unfolding train_models_def Let_def by (auto split: sum.splits)
  from assms v t obtain tbl vt tt fs1 where
    s: "train_seeds clf io_ok ?self n pred_test seeds ([], vt0, tt0, fs) = ((tbl, vt, tt, fs1), None)"
    unfolding train_models_def Let_def by (auto split: prod.splits option.splits)
  let ?self2 = "?self\<lparr>history_table := Some tbl, val_pred_table := Some vt,
                       test_pred_table := Some tt\<rparr>"
  let ?b = "frac_balance self"
  let ?entries = "[(''histories'' @ fmt_table n ?b, tbl), (''predval'' @ fmt_table n ?b, vt)]
                  @ (if 3 < length (colnames tt) then [(''predtest'' @ fmt_table n ?b, tt)] else [])"
  from assms v t s have od: "output_dir self \<noteq> None"
    and w: "write_all io_ok fs1 ?entries = (fs', None)" and se: "self' = ?self2"
    unfolding train_models_def Let_def by (auto split: prod.splits if_splits)
  show "epochs self' = Some n" "frac_balance self' = frac_balance self"
    "output_dir self' = output_dir self" "output_dir self \<noteq> None"
    using se od by simp_all
  have "distinct (map fst ?entries)" by simp
  from write_all_None[OF w this, of "''predval'' @ fmt_table n ?b" vt]
  have m: "map_of fs' (''predval'' @ fmt_table n ?b) = Some (AsciiTable vt)" by simp
  from add_columns_Inr[OF v] have "colnames vt0 = [''tic'', ''gt'', ''tpeak'']"
    by (simp add: colnames_def)
  with train_seeds_None[OF s]
  have "colnames vt = [''tic'', ''gt'', ''tpeak''] @ map (\<lambda>seed. ''pred'' @ seed_suffix seed) seeds"
    by simp
  with m show "\<exists>val_table.
           map_of fs' (''predval'' @ fmt_table n (frac_balance self)) = Some (AsciiTable val_table)
           \<and> colnames val_table
               = [''tic'', ''gt'', ''tpeak''] @ map (\<lambda>seed. ''pred'' @ seed_suffix seed) seeds"
    by blast
qed

subsection \<open>What \<^verbatim>\<open>create_df\<close> makes of it\<close>

lemma read_files_fails:
  assumes "path \<in> set files" and "table_read fs dir path = Inr r"
    and "getcol r ''pred'' = Inl e"
  shows "\<exists>e'. read_files fs dir files state = Inl e'"
  using assms(1)
proof (induction files arbitrary: state)
  case Nil
  then show ?case by simp
next
  case (Cons val vals)
  obtain df mean_arr last_r where st: "state = (df, mean_arr, last_r)" by (cases state) auto
  show ?case
  proof (cases "val = path")
    case True
    then show ?thesis using assms(2,3) st by simp
  next
    case False
    with Cons.prems have "path \<in> set vals" by simp
    from Cons.IH[OF this] show ?thesis
      using st by (auto split: sum.splits)
  qed
qed

lemma getcol_missing:
  assumes "name \<notin> set (colnames df)"
  shows "getcol df name = Inl (KeyError name)"
proof -
  from assms have "map_of df name = None" by (simp add: colnames_def map_of_eq_None_iff)
  then show ?thesis by (simp add: getcol_def)
qed

text \<open>
  Claim C9: every call of \<^verbatim>\<open>train_models\<close> with \<^verbatim>\<open>save=True\<close> that returns has written
  the validation predictions as the single file \<^verbatim>\<open>predval_i<epochs>_b<balance>.txt\<close>,
  whose name is not an instance of the per-seed template \<^verbatim>\<open>predval_fmt\<close> and whose
  columns are \<^verbatim>\<open>tic\<close>, \<^verbatim>\<open>gt\<close>, \<^verbatim>\<open>tpeak\<close> and one \<^verbatim>\<open>pred_s<seed>\<close> per seed, so
  that reading its column \<^verbatim>\<open>pred\<close> raises \<^verbatim>\<open>KeyError\<close>; the pattern of
  \<^verbatim>\<open>create_df\<close> matches that file, and \<^verbatim>\<open>create_df\<close> on the validation set then raises
  for every threshold and mode, whatever else the directory holds. (The balance is the
  text of a float, which has no wildcard. The model lets \<^verbatim>\<open>Table.read\<close> recover the
  written columns as they are, which favours the round trip: the file is written
  space-delimited and read as comma-separated.)
\<close>

theorem saved_predictions_not_consumed:
  assumes "train_models clf io_ok ds self fs seeds n pred_test True = (self', fs', None)"
    and "CHR ''*'' \<notin> set (frac_balance self)" and "CHR ''?'' \<notin> set (frac_balance self)"
  shows "\<exists>val_table.
           map_of fs' (''predval'' @ fmt_table n (frac_balance self)) = Some (AsciiTable val_table)
         \<and> colnames val_table
             = [''tic'', ''gt'', ''tpeak''] @ map (\<lambda>seed. ''pred'' @ seed_suffix seed) seeds
         \<and> getcol val_table ''pred'' = Inl (KeyError ''pred'')
         \<and> (\<forall>seed. ''predval'' @ fmt_table n (frac_balance self)
                      \<noteq> predval_fmt seed n (frac_balance self))
         \<and> (\<forall>threshold mode. \<exists>e. create_df self' fs' threshold mode ''validation'' = Inl e)"
proof -
  let ?b = "frac_balance self"
  let ?name = "''predval'' @ fmt_table n ?b"
  from train_models_saved[OF assms(1)] obtain val_table dir where
    s: "epochs self' = Some n" "frac_balance self' = ?b" "output_dir self' = Some dir"
    and m: "map_of fs' ?name = Some (AsciiTable val_table)"
    and c: "colnames val_table
             = [''tic'', ''gt'', ''tpeak''] @ map (\<lambda>seed. ''pred'' @ seed_suffix seed) seeds"
    by auto
  have "''pred'' \<notin> set (colnames val_table)" unfolding c by (auto simp: seed_suffix_def)
  then have g: "getcol val_table ''pred'' = Inl (KeyError ''pred'')" by (rule getcol_missing)
  let ?pat = "''predval'' @ ''*i'' @ fmt04d n @ ''*_b'' @ ?b @ ''.txt''"
  let ?files = "sort (glob_dir fs' dir ?pat)"
  have ff: "find_files self' fs' ''validation'' = Inr (dir, ?files)"
    by (simp add: find_files_def lower_validation s)
  have "glob_match ?pat ?name"
    by (rule glob_match_table_name) (use assms(2,3) in auto)
  from glob_dir_finds[OF m this, of dir] have mem: "path_join dir ?name \<in> set ?files" by simp
  have rd: "table_read fs' dir (path_join dir ?name) = Inr val_table"
    using m by (rule table_read_written)
  have "\<exists>e. create_df self' fs' threshold mode ''validation'' = Inl e" for threshold mode
  proof (cases "mode = ''metrics'' \<and> length ?files < 2")
    case True
    then show ?thesis by (simp add: create_df_def ff)
  next
    case False
    from read_files_fails[OF mem rd g, of "([], [], None)"] obtain e' where
      "read_files fs' dir ?files ([], [], None) = Inl e'" ..
    with False show ?thesis by (simp add: create_df_def ff)
  qed
  with m c g written_name_is_not_per_seed show ?thesis by blast
qed

theorem saved_predictions_not_consumed_witness:
  "train_models
     (\<lambda>seed. Inr \<lparr>history = [(''loss'', [Num 0.5])], val_preds = Inr [Num 0.9, Num 0.1],
                 test_preds = Inr [Num 0.3]\<rparr>)
     (\<lambda>name. True)
     \<lparr>val_ids = [Num 11, Num 12], val_labels = [Num 1, Num 0], val_tpeaks = [Num 3, Num 4],
      test_ids = [Num 13], test_labels = [Num 1], test_tpeaks = [Num 5]\<rparr>
     \<lparr>output_dir = Some ''out'', epochs = None, frac_balance = ''0.73'',
      average_precision = None, accuracy = None, recall_score = None,
      precision_score = None, prec_recall_curve = None, history_table = None,
      val_pred_table = None, test_pred_table = None\<rparr>
     [] [1, 2] 5 False True
   = (\<lparr>output_dir = Some ''out'', epochs = Some 5, frac_balance = ''0.73'',
       average_precision = None, accuracy = None, recall_score = None,
       precision_score = None, prec_recall_curve = None,
       history_table = Some [(''loss_s0001'', [Num 0.5]), (''loss_s0002'', [Num 0.5])],
       val_pred_table = Some [(''tic'', [Num 11, Num 12]), (''gt'', [Num 1, Num 0]),
          (''tpeak'', [Num 3, Num 4]), (''pred_s0001'', [Num 0.9, Num 0.1]),
          (''pred_s0002'', [Num 0.9, Num 0.1])],
       test_pred_table = Some [(''tic'', [Num 13]), (''gt'', [Num 1]), (''tpeak'', [Num 5])]\<rparr>,
      [(''predval_i0005_b0.73.txt'',
        AsciiTable [(''tic'', [Num 11, Num 12]), (''gt'', [Num 1, Num 0]),
          (''tpeak'', [Num 3, Num 4]), (''pred_s0001'', [Num 0.9, Num 0.1]),
          (''pred_s0002'', [Num 0.9, Num 0.1])]),
       (''histories_i0005_b0.73.txt'',
        AsciiTable [(''loss_s0001'', [Num 0.5]), (''loss_s0002'', [Num 0.5])]),
       (''model_s0002_i0005_b0.73.h5'', KerasModel),
       (''model_s0001_i0005_b0.73.h5'', KerasModel)],
      None)
   \<and> CHR ''*'' \<notin> set ''0.73'' \<and> CHR ''?'' \<notin> set ''0.73''
   \<and> (\<exists>e. create_df
        \<lparr>output_dir = Some ''out'', epochs = Some 5, frac_balance = ''0.73'',
         average_precision = None, accuracy = None, recall_score = None,
         precision_score = None, prec_recall_curve = None,
         history_table = Some [(''loss_s0001'', [Num 0.5]), (''loss_s0002'', [Num 0.5])],
         val_pred_table = Some [(''tic'', [Num 11, Num 12]), (''gt'', [Num 1, Num 0]),
            (''tpeak'', [Num 3, Num 4]), (''pred_s0001'', [Num 0.9, Num 0.1]),
            (''pred_s0002'', [Num 0.9, Num 0.1])],
         test_pred_table = Some [(''tic'', [Num 13]), (''gt'', [Num 1]), (''tpeak'', [Num 5])]\<rparr>
        [(''predval_i0005_b0.73.txt'',
          AsciiTable [(''tic'', [Num 11, Num 12]), (''gt'', [Num 1, Num 0]),
            (''tpeak'', [Num 3, Num 4]), (''pred_s0001'', [Num 0.9, Num 0.1]),
            (''pred_s0002'', [Num 0.9, Num 0.1])]),
         (''histories_i0005_b0.73.txt'',
          AsciiTable [(''loss_s0001'', [Num 0.5]), (''loss_s0002'', [Num 0.5])]),
         (''model_s0002_i0005_b0.73.h5'', KerasModel),
         (''model_s0001_i0005_b0.73.h5'', KerasModel)]
        (Num 0.5) ''metrics'' ''validation'' = Inl e)"
proof -
  let ?self1 = "\<lparr>output_dir = Some ''out'', epochs = Some 5, frac_balance = ''0.73'',
       average_precision = None, accuracy = None, recall_score = None,
       precision_score = None, prec_recall_curve = None,
       history_table = Some [(''loss_s0001'', [Num 0.5]), (''loss_s0002'', [Num 0.5])],
       val_pred_table = Some [(''tic'', [Num 11, Num 12]), (''gt'', [Num 1, Num 0]),
          (''tpeak'', [Num 3, Num 4]), (''pred_s0001'', [Num 0.9, Num 0.1]),
          (''pred_s0002'', [Num 0.9, Num 0.1])],
       test_pred_table = Some [(''tic'', [Num 13]), (''gt'', [Num 1]), (''tpeak'', [Num 5])]\<rparr>"
  let ?fs1 = "[(''predval_i0005_b0.73.txt'',
        AsciiTable [(''tic'', [Num 11, Num 12]), (''gt'', [Num 1, Num 0]),
          (''tpeak'', [Num 3, Num 4]), (''pred_s0001'', [Num 0.9, Num 0.1]),
          (''pred_s0002'', [Num 0.9, Num 0.1])]),
       (''histories_i0005_b0.73.txt'',
        AsciiTable [(''loss_s0001'', [Num 0.5]), (''loss_s0002'', [Num 0.5])]),
       (''model_s0002_i0005_b0.73.h5'', KerasModel),
       (''model_s0001_i0005_b0.73.h5'', KerasModel)]"
  have run: "train_models
     (\<lambda>seed. Inr \<lparr>history = [(''loss'', [Num 0.5])], val_preds = Inr [Num 0.9, Num 0.1],
                 test_preds = Inr [Num 0.3]\<rparr>)
     (\<lambda>name. True)
     \<lparr>val_ids = [Num 11, Num 12], val_labels = [Num 1, Num 0], val_tpeaks = [Num 3, Num 4],
      test_ids = [Num 13], test_labels = [Num 1], test_tpeaks = [Num 5]\<rparr>
     \<lparr>output_dir = Some ''out'', epochs = None, frac_balance = ''0.73'',
      average_precision = None, accuracy = None, recall_score = None,
      precision_score = None, prec_recall_curve = None, history_table = None,
      val_pred_table = None, test_pred_table = None\<rparr>
     [] [1, 2] 5 False True = (?self1, ?fs1, None)"
    by code_simp
  have p: "CHR ''*'' \<notin> set ''0.73''" "CHR ''?'' \<notin> set ''0.73''" by simp_all
  have q: "CHR ''*'' \<notin> set (frac_balance
     \<lparr>output_dir = Some ''out'', epochs = None, frac_balance = ''0.73'',
      average_precision = None, accuracy = None, recall_score = None,
      precision_score = None, prec_recall_curve = None, history_table = None,
      val_pred_table = None, test_pred_table = None\<rparr>)"
    "CHR ''?'' \<notin> set (frac_balance
     \<lparr>output_dir = Some ''out'', epochs = None, frac_balance = ''0.73'',
      average_precision = None, accuracy = None, recall_score = None,
      precision_score = None, prec_recall_curve = None, history_table = None,
      val_pred_table = None, test_pred_table = None\<rparr>)"
    by simp_all
  from saved_predictions_not_consumed [OF run q]
  have "\<forall>threshold mode. \<exists>e. create_df ?self1 ?fs1 threshold mode ''validation'' = Inl e"
    by (elim exE conjE)
  then have "\<exists>e. create_df ?self1 ?fs1 (Num 0.5) ''metrics'' ''validation'' = Inl e"
    by (elim allE)
  with run p show ?thesis by (intro conjI)
qed

text \<open>On that directory the exception is the one for too few models in the default mode,
  and the missing column in any other.\<close>

lemma create_df_on_saved_table:
  "create_df
        \<lparr>output_dir = Some ''out'', epochs = Some 5, frac_balance = ''0.73'',
         average_precision = None, accuracy = None, recall_score = None,
         precision_score = None, prec_recall_curve = None,
         history_table = None, val_pred_table = None, test_pred_table = None\<rparr>
        [(''predval_i0005_b0.73.txt'',
          AsciiTable [(''tic'', [Num 11, Num 12]), (''gt'', [Num 1, Num 0]),
            (''tpeak'', [Num 3, Num 4]), (''pred_s0001'', [Num 0.9, Num 0.1]),
            (''pred_s0002'', [Num 0.9, Num 0.1])]),
         (''histories_i0005_b0.73.txt'',
          AsciiTable [(''loss_s0001'', [Num 0.5]), (''loss_s0002'', [Num 0.5])]),
         (''model_s0002_i0005_b0.73.h5'', KerasModel),
         (''model_s0001_i0005_b0.73.h5'', KerasModel)]
        (Num 0.5) ''metrics'' ''validation''
     = Inl (ValueError ''Can only calculate metrics for multiple models.'')"
  "create_df
        \<lparr>output_dir = Some ''out'', epochs = Some 5, frac_balance = ''0.73'',
         average_precision = None, accuracy = None, recall_score = None,
         precision_score = None, prec_recall_curve = None,
         history_table = None, val_pred_table = None, test_pred_table = None\<rparr>
        [(''predval_i0005_b0.73.txt'',
          AsciiTable [(''tic'', [Num 11, Num 12]), (''gt'', [Num 1, Num 0]),
            (''tpeak'', [Num 3, Num 4]), (''pred_s0001'', [Num 0.9, Num 0.1]),
            (''pred_s0002'', [Num 0.9, Num 0.1])]),
         (''histories_i0005_b0.73.txt'',
          AsciiTable [(''loss_s0001'', [Num 0.5]), (''loss_s0002'', [Num 0.5])]),
         (''model_s0002_i0005_b0.73.h5'', KerasModel),
         (''model_s0001_i0005_b0.73.h5'', KerasModel)]
        (Num 0.5) ''other'' ''validation''
     = Inl (KeyError ''pred'')"
  by code_simp+

end
